theory Spec2Isabelle
  imports Main
begin

section \<open>The writing pipeline of app.py\<close>

text \<open>
  The program keeps one table \<open>books\<close> in an SQLite file, asks a remote text-generation
  service for three drafts of every chapter and for a choice among them, and appends the
  chosen chapter to the book's row. This theory embeds the store functions
  (\<open>add_book_to_db\<close>, \<open>update_book_progress\<close>, \<open>get_book_info\<close>), the service wrapper
  \<open>call_deepseek_api\<close> and the driver \<open>writing_process\<close>, and proves what they do.

  Python's \<open>str\<close> values are modelled as \<open>string\<close>, holding the UTF-8 bytes of the text:
  the program only concatenates strings, compares them and tests them for emptiness, and
  UTF-8 encoding preserves all three. The texts of the model are therefore the ones that
  UTF-8 can encode, which are the ones SQLite accepts as a parameter (a \<open>str\<close> with a
  lone surrogate is refused with a \<open>UnicodeEncodeError\<close>; such a value is outside the
  model). Python's unbounded \<open>int\<close> is \<open>int\<close>; where an \<open>int\<close> is bound to a parameter of an SQL
  statement it must fit SQLite's signed 64-bit \<open>INTEGER\<close>, and the model raises the
  \<open>OverflowError\<close> of the binding otherwise.
\<close>

subsection \<open>String literals of the source\<close>

text \<open>The status literal of line 33 (queued). Code points: U+6392 U+961F U+4E2D "...".\<close>

definition status_queued :: string where
  "status_queued =
     [CHR 0xE6, CHR 0x8E, CHR 0x92, CHR 0xE9, CHR 0x98, CHR 0x9F, CHR 0xE4, CHR 0xB8, CHR 0xAD] @
     ''...''"

text \<open>The text before the chapter number in the f-string of line 94 (now generating chapter). Code
  points: U+6B63 U+5728 U+751F U+6210 U+7B2C " ".\<close>

definition status_generating_prefix :: string where
  "status_generating_prefix =
     [CHR 0xE6, CHR 0xAD, CHR 0xA3, CHR 0xE5, CHR 0x9C, CHR 0xA8, CHR 0xE7, CHR 0x94, CHR 0x9F,
     CHR 0xE6, CHR 0x88, CHR 0x90, CHR 0xE7, CHR 0xAC, CHR 0xAC] @ '' ''"

text \<open>The text after the chapter number in the f-string of line 94. Code points: " " U+7AE0 "...".\<close>

definition status_generating_suffix :: string where
  "status_generating_suffix =
     '' '' @ [CHR 0xE7, CHR 0xAB, CHR 0xA0] @ ''...''"

text \<open>The status literal of line 107 (error: generating the drafts failed). Code points: U+9519
  U+8BEF U+FF1A U+751F U+6210 U+8349 U+7A3F U+5931 U+8D25.\<close>

definition status_draft_failed :: string where
  "status_draft_failed =
     [CHR 0xE9, CHR 0x94, CHR 0x99, CHR 0xE8, CHR 0xAF, CHR 0xAF, CHR 0xEF, CHR 0xBC, CHR 0x9A,
     CHR 0xE7, CHR 0x94, CHR 0x9F, CHR 0xE6, CHR 0x88, CHR 0x90, CHR 0xE8, CHR 0x8D, CHR 0x89,
     CHR 0xE7, CHR 0xA8, CHR 0xBF, CHR 0xE5, CHR 0xA4, CHR 0xB1, CHR 0xE8, CHR 0xB4, CHR 0xA5]"

text \<open>The status literal of line 122 (error: selecting the best version failed). Code points:
  U+9519 U+8BEF U+FF1A U+9009 U+62E9 U+6700 U+4F73 U+7248 U+672C U+5931 U+8D25.\<close>

definition status_select_failed :: string where
  "status_select_failed =
     [CHR 0xE9, CHR 0x94, CHR 0x99, CHR 0xE8, CHR 0xAF, CHR 0xAF, CHR 0xEF, CHR 0xBC, CHR 0x9A,
     CHR 0xE9, CHR 0x80, CHR 0x89, CHR 0xE6, CHR 0x8B, CHR 0xA9, CHR 0xE6, CHR 0x9C, CHR 0x80,
     CHR 0xE4, CHR 0xBD, CHR 0xB3, CHR 0xE7, CHR 0x89, CHR 0x88, CHR 0xE6, CHR 0x9C, CHR 0xAC,
     CHR 0xE5, CHR 0xA4, CHR 0xB1, CHR 0xE8, CHR 0xB4, CHR 0xA5]"

text \<open>The first status literal of line 128 (writing). Code points: U+5199 U+4F5C U+4E2D "...".\<close>

definition status_writing :: string where
  "status_writing =
     [CHR 0xE5, CHR 0x86, CHR 0x99, CHR 0xE4, CHR 0xBD, CHR 0x9C, CHR 0xE4, CHR 0xB8, CHR 0xAD] @
     ''...''"

text \<open>The second status literal of line 128 (completed). Code points: U+5DF2 U+5B8C U+6210.\<close>

definition status_done :: string where
  "status_done =
     [CHR 0xE5, CHR 0xB7, CHR 0xB2, CHR 0xE5, CHR 0xAE, CHR 0x8C, CHR 0xE6, CHR 0x88, CHR 0x90]"

text \<open>The text before the chapter number in the f-string of line 126: a rule and the start of a
  heading. Code points: LF LF "---" LF LF "## " U+7B2C " ".\<close>

definition content_prefix :: string where
  "content_prefix =
     [CHR 0x0A, CHR 0x0A] @ ''---'' @ [CHR 0x0A, CHR 0x0A] @ ''## '' @ [CHR 0xE7, CHR 0xAC,
     CHR 0xAC] @ '' ''"

text \<open>The text between the chapter number and the chosen chapter in the f-string of line 126. Code
  points: " " U+7AE0 LF LF.\<close>

definition content_suffix :: string where
  "content_suffix =
     '' '' @ [CHR 0xE7, CHR 0xAB, CHR 0xA0, CHR 0x0A, CHR 0x0A]"

text \<open>The text before the exception in the f-string of line 81. Code points: U+8C03 U+7528 "API"
  U+65F6 U+51FA U+9519 ": ".\<close>

definition api_error_prefix :: string where
  "api_error_prefix =
     [CHR 0xE8, CHR 0xB0, CHR 0x83, CHR 0xE7, CHR 0x94, CHR 0xA8] @ ''API'' @ [CHR 0xE6,
     CHR 0x97, CHR 0xB6, CHR 0xE5, CHR 0x87, CHR 0xBA, CHR 0xE9, CHR 0x94, CHR 0x99] @ '': ''"

text \<open>The f-string of line 99 up to the chapter number. Code points: U+4F60 U+662F U+4E00 U+4F4D
  U+5BCC U+6709 U+60F3 U+8C61 U+529B U+7684 U+5C0F U+8BF4 U+5BB6 U+3002 U+8BF7 U+6839 U+636E
  U+4EE5 U+4E0B U+5C0F U+8BF4 U+7684 U+5DF2 U+6709 U+5185 U+5BB9 U+FF0C U+7EED U+5199 U+7B2C
  " ".\<close>

definition draft_prompt_1 :: string where
  "draft_prompt_1 =
     [CHR 0xE4, CHR 0xBD, CHR 0xA0, CHR 0xE6, CHR 0x98, CHR 0xAF, CHR 0xE4, CHR 0xB8, CHR 0x80,
     CHR 0xE4, CHR 0xBD, CHR 0x8D, CHR 0xE5, CHR 0xAF, CHR 0x8C, CHR 0xE6, CHR 0x9C, CHR 0x89,
     CHR 0xE6, CHR 0x83, CHR 0xB3, CHR 0xE8, CHR 0xB1, CHR 0xA1, CHR 0xE5, CHR 0x8A, CHR 0x9B,
     CHR 0xE7, CHR 0x9A, CHR 0x84, CHR 0xE5, CHR 0xB0, CHR 0x8F, CHR 0xE8, CHR 0xAF, CHR 0xB4,
     CHR 0xE5, CHR 0xAE, CHR 0xB6, CHR 0xE3, CHR 0x80, CHR 0x82, CHR 0xE8, CHR 0xAF, CHR 0xB7,
     CHR 0xE6, CHR 0xA0, CHR 0xB9, CHR 0xE6, CHR 0x8D, CHR 0xAE, CHR 0xE4, CHR 0xBB, CHR 0xA5,
     CHR 0xE4, CHR 0xB8, CHR 0x8B, CHR 0xE5, CHR 0xB0, CHR 0x8F, CHR 0xE8, CHR 0xAF, CHR 0xB4,
     CHR 0xE7, CHR 0x9A, CHR 0x84, CHR 0xE5, CHR 0xB7, CHR 0xB2, CHR 0xE6, CHR 0x9C, CHR 0x89,
     CHR 0xE5, CHR 0x86, CHR 0x85, CHR 0xE5, CHR 0xAE, CHR 0xB9, CHR 0xEF, CHR 0xBC, CHR 0x8C,
     CHR 0xE7, CHR 0xBB, CHR 0xAD, CHR 0xE5, CHR 0x86, CHR 0x99, CHR 0xE7, CHR 0xAC, CHR 0xAC] @
     '' ''"

text \<open>The f-string of line 99 between the chapter number and the title. Code points: " " U+7AE0
  U+3002 LF LF U+3010 U+4E66 U+540D U+3011 ": ".\<close>

definition draft_prompt_2 :: string where
  "draft_prompt_2 =
     '' '' @ [CHR 0xE7, CHR 0xAB, CHR 0xA0, CHR 0xE3, CHR 0x80, CHR 0x82, CHR 0x0A, CHR 0x0A,
     CHR 0xE3, CHR 0x80, CHR 0x90, CHR 0xE4, CHR 0xB9, CHR 0xA6, CHR 0xE5, CHR 0x90, CHR 0x8D,
     CHR 0xE3, CHR 0x80, CHR 0x91] @ '': ''"

text \<open>The f-string of line 99 between the title and the text written so far. Code points: LF LF
  U+3010 U+5DF2 U+6709 U+5185 U+5BB9 U+3011 ":" LF.\<close>

definition draft_prompt_3 :: string where
  "draft_prompt_3 =
     [CHR 0x0A, CHR 0x0A, CHR 0xE3, CHR 0x80, CHR 0x90, CHR 0xE5, CHR 0xB7, CHR 0xB2, CHR 0xE6,
     CHR 0x9C, CHR 0x89, CHR 0xE5, CHR 0x86, CHR 0x85, CHR 0xE5, CHR 0xAE, CHR 0xB9, CHR 0xE3,
     CHR 0x80, CHR 0x91] @ '':'' @ [CHR 0x0A]"

text \<open>The f-string of line 112 up to the title. Code points: U+4F60 U+662F U+4E00 U+4F4D U+8D44
  U+6DF1 U+7F16 U+8F91 U+3002 U+8BF7 U+4ECE U+4EE5 U+4E0B U+4E3A U+5C0F U+8BF4 U+300A.\<close>

definition select_prompt_1 :: string where
  "select_prompt_1 =
     [CHR 0xE4, CHR 0xBD, CHR 0xA0, CHR 0xE6, CHR 0x98, CHR 0xAF, CHR 0xE4, CHR 0xB8, CHR 0x80,
     CHR 0xE4, CHR 0xBD, CHR 0x8D, CHR 0xE8, CHR 0xB5, CHR 0x84, CHR 0xE6, CHR 0xB7, CHR 0xB1,
     CHR 0xE7, CHR 0xBC, CHR 0x96, CHR 0xE8, CHR 0xBE, CHR 0x91, CHR 0xE3, CHR 0x80, CHR 0x82,
     CHR 0xE8, CHR 0xAF, CHR 0xB7, CHR 0xE4, CHR 0xBB, CHR 0x8E, CHR 0xE4, CHR 0xBB, CHR 0xA5,
     CHR 0xE4, CHR 0xB8, CHR 0x8B, CHR 0xE4, CHR 0xB8, CHR 0xBA, CHR 0xE5, CHR 0xB0, CHR 0x8F,
     CHR 0xE8, CHR 0xAF, CHR 0xB4, CHR 0xE3, CHR 0x80, CHR 0x8A]"

text \<open>The f-string of line 112 between the title and the chapter number. Code points: U+300B
  U+7684 U+7B2C " ".\<close>

definition select_prompt_2 :: string where
  "select_prompt_2 =
     [CHR 0xE3, CHR 0x80, CHR 0x8B, CHR 0xE7, CHR 0x9A, CHR 0x84, CHR 0xE7, CHR 0xAC, CHR 0xAC] @
     '' ''"

text \<open>The f-strings of lines 112 and 113 between the chapter number and the text written so far.
  Code points: " " U+7AE0 U+5199 U+7684 U+4E09 U+4E2A U+8349 U+7A3F U+7248 U+672C U+4E2D
  U+FF0C U+9009 U+62E9 U+4E00 U+4E2A U+4E0E U+4E0A U+4E0B U+6587 U+8854 U+63A5 U+6700 U+81EA
  U+7136 U+3001 U+60C5 U+8282 U+6700 U+5438 U+5F15 U+4EBA U+3001 U+6587 U+7B14 U+6700 U+597D
  U+7684 U+7248 U+672C U+3002 U+8BF7 U+4E0D U+8981 U+6DFB U+52A0 U+4EFB U+4F55 U+8BC4 U+8BBA
  U+6216 U+89E3 U+91CA U+FF0C U+76F4 U+63A5 U+8F93 U+51FA U+4F60 U+9009 U+62E9 U+7684 U+90A3
  U+4E2A U+7248 U+672C U+7684 U+5168 U+6587 U+3002 LF LF U+3010 U+4E0A U+4E0B U+6587 U+FF08
  U+4E4B U+524D U+7684 U+5185 U+5BB9 U+FF09 U+3011 ":" LF.\<close>

definition select_prompt_3 :: string where
  "select_prompt_3 =
     '' '' @ [CHR 0xE7, CHR 0xAB, CHR 0xA0, CHR 0xE5, CHR 0x86, CHR 0x99, CHR 0xE7, CHR 0x9A,
     CHR 0x84, CHR 0xE4, CHR 0xB8, CHR 0x89, CHR 0xE4, CHR 0xB8, CHR 0xAA, CHR 0xE8, CHR 0x8D,
     CHR 0x89, CHR 0xE7, CHR 0xA8, CHR 0xBF, CHR 0xE7, CHR 0x89, CHR 0x88, CHR 0xE6, CHR 0x9C,
     CHR 0xAC, CHR 0xE4, CHR 0xB8, CHR 0xAD, CHR 0xEF, CHR 0xBC, CHR 0x8C, CHR 0xE9, CHR 0x80,
     CHR 0x89, CHR 0xE6, CHR 0x8B, CHR 0xA9, CHR 0xE4, CHR 0xB8, CHR 0x80, CHR 0xE4, CHR 0xB8,
     CHR 0xAA, CHR 0xE4, CHR 0xB8, CHR 0x8E, CHR 0xE4, CHR 0xB8, CHR 0x8A, CHR 0xE4, CHR 0xB8,
     CHR 0x8B, CHR 0xE6, CHR 0x96, CHR 0x87, CHR 0xE8, CHR 0xA1, CHR 0x94, CHR 0xE6, CHR 0x8E,
     CHR 0xA5, CHR 0xE6, CHR 0x9C, CHR 0x80, CHR 0xE8, CHR 0x87, CHR 0xAA, CHR 0xE7, CHR 0x84,
     CHR 0xB6, CHR 0xE3, CHR 0x80, CHR 0x81, CHR 0xE6, CHR 0x83, CHR 0x85, CHR 0xE8, CHR 0x8A,
     CHR 0x82, CHR 0xE6, CHR 0x9C, CHR 0x80, CHR 0xE5, CHR 0x90, CHR 0xB8, CHR 0xE5, CHR 0xBC,
     CHR 0x95, CHR 0xE4, CHR 0xBA, CHR 0xBA, CHR 0xE3, CHR 0x80, CHR 0x81, CHR 0xE6, CHR 0x96,
     CHR 0x87, CHR 0xE7, CHR 0xAC, CHR 0x94, CHR 0xE6, CHR 0x9C, CHR 0x80, CHR 0xE5, CHR 0xA5,
     CHR 0xBD, CHR 0xE7, CHR 0x9A, CHR 0x84, CHR 0xE7, CHR 0x89, CHR 0x88, CHR 0xE6, CHR 0x9C,
     CHR 0xAC, CHR 0xE3, CHR 0x80, CHR 0x82, CHR 0xE8, CHR 0xAF, CHR 0xB7, CHR 0xE4, CHR 0xB8,
     CHR 0x8D, CHR 0xE8, CHR 0xA6, CHR 0x81, CHR 0xE6, CHR 0xB7, CHR 0xBB, CHR 0xE5, CHR 0x8A,
     CHR 0xA0, CHR 0xE4, CHR 0xBB, CHR 0xBB, CHR 0xE4, CHR 0xBD, CHR 0x95, CHR 0xE8, CHR 0xAF,
     CHR 0x84, CHR 0xE8, CHR 0xAE, CHR 0xBA, CHR 0xE6, CHR 0x88, CHR 0x96, CHR 0xE8, CHR 0xA7,
     CHR 0xA3, CHR 0xE9, CHR 0x87, CHR 0x8A, CHR 0xEF, CHR 0xBC, CHR 0x8C, CHR 0xE7, CHR 0x9B,
     CHR 0xB4, CHR 0xE6, CHR 0x8E, CHR 0xA5, CHR 0xE8, CHR 0xBE, CHR 0x93, CHR 0xE5, CHR 0x87,
     CHR 0xBA, CHR 0xE4, CHR 0xBD, CHR 0xA0, CHR 0xE9, CHR 0x80, CHR 0x89, CHR 0xE6, CHR 0x8B,
     CHR 0xA9, CHR 0xE7, CHR 0x9A, CHR 0x84, CHR 0xE9, CHR 0x82, CHR 0xA3, CHR 0xE4, CHR 0xB8,
     CHR 0xAA, CHR 0xE7, CHR 0x89, CHR 0x88, CHR 0xE6, CHR 0x9C, CHR 0xAC, CHR 0xE7, CHR 0x9A,
     CHR 0x84, CHR 0xE5, CHR 0x85, CHR 0xA8, CHR 0xE6, CHR 0x96, CHR 0x87, CHR 0xE3, CHR 0x80,
     CHR 0x82, CHR 0x0A, CHR 0x0A, CHR 0xE3, CHR 0x80, CHR 0x90, CHR 0xE4, CHR 0xB8, CHR 0x8A,
     CHR 0xE4, CHR 0xB8, CHR 0x8B, CHR 0xE6, CHR 0x96, CHR 0x87, CHR 0xEF, CHR 0xBC, CHR 0x88,
     CHR 0xE4, CHR 0xB9, CHR 0x8B, CHR 0xE5, CHR 0x89, CHR 0x8D, CHR 0xE7, CHR 0x9A, CHR 0x84,
     CHR 0xE5, CHR 0x86, CHR 0x85, CHR 0xE5, CHR 0xAE, CHR 0xB9, CHR 0xEF, CHR 0xBC, CHR 0x89,
     CHR 0xE3, CHR 0x80, CHR 0x91] @ '':'' @ [CHR 0x0A]"

text \<open>The f-strings of lines 113 and 114 between the text written so far and the first draft. Code
  points: LF LF "--- " U+8349 U+7A3F U+7248 U+672C " 1 ---" LF.\<close>

definition select_prompt_4 :: string where
  "select_prompt_4 =
     [CHR 0x0A, CHR 0x0A] @ ''--- '' @ [CHR 0xE8, CHR 0x8D, CHR 0x89, CHR 0xE7, CHR 0xA8,
     CHR 0xBF, CHR 0xE7, CHR 0x89, CHR 0x88, CHR 0xE6, CHR 0x9C, CHR 0xAC] @ '' 1 ---'' @
     [CHR 0x0A]"

text \<open>The f-strings of lines 114 and 115 between the first and the second draft. Code points: LF
  LF "--- " U+8349 U+7A3F U+7248 U+672C " 2 ---" LF.\<close>

definition select_prompt_5 :: string where
  "select_prompt_5 =
     [CHR 0x0A, CHR 0x0A] @ ''--- '' @ [CHR 0xE8, CHR 0x8D, CHR 0x89, CHR 0xE7, CHR 0xA8,
     CHR 0xBF, CHR 0xE7, CHR 0x89, CHR 0x88, CHR 0xE6, CHR 0x9C, CHR 0xAC] @ '' 2 ---'' @
     [CHR 0x0A]"

text \<open>The f-strings of lines 115 and 116 between the second and the third draft. Code points: LF
  LF "--- " U+8349 U+7A3F U+7248 U+672C " 3 ---" LF.\<close>

definition select_prompt_6 :: string where
  "select_prompt_6 =
     [CHR 0x0A, CHR 0x0A] @ ''--- '' @ [CHR 0xE8, CHR 0x8D, CHR 0x89, CHR 0xE7, CHR 0xA8,
     CHR 0xBF, CHR 0xE7, CHR 0x89, CHR 0x88, CHR 0xE6, CHR 0x9C, CHR 0xAC] @ '' 3 ---'' @
     [CHR 0x0A]"

text \<open>The end of the f-string of line 116. Code points: LF "---".\<close>

definition select_prompt_7 :: string where
  "select_prompt_7 =
     [CHR 0x0A] @ ''---''"

subsection \<open>Formatting an integer\<close>

text \<open>
  An f-string formats an \<open>int\<close> in decimal, with a minus sign when it is negative.
\<close>

fun digits :: "nat \<Rightarrow> string" where
  "digits n =
     (if n < 10 then [''0123456789'' ! n]
      else digits (n div 10) @ [''0123456789'' ! (n mod 10)])"

definition str_int :: "int \<Rightarrow> string" where
  "str_int i = (if i < 0 then ''-'' @ digits (nat (- i)) else digits (nat i))"

subsection \<open>The table \<open>books\<close>\<close>

text \<open>
  A row of the table created by \<open>setup_database\<close> (lines 15 to 24), in the column order
  that \<open>SELECT *\<close> returns: \<open>book_info[5]\<close> is \<open>full_text\<close>. The field \<open>id_col\<close> is the
  column \<open>id\<close>. The column \<open>full_text\<close> is
  declared \<open>TEXT DEFAULT ''\<close>; the only \<open>INSERT\<close> of the program leaves the default and the
  only \<open>UPDATE\<close> binds a \<open>str\<close>, so the column holds a \<open>str\<close> in every row that the program
  writes, and the model types it as \<open>string\<close>.
\<close>

record book =
  id_col :: int
  title :: string
  total_chapters :: int
  current_chapter :: int
  status :: string
  full_text :: string

text \<open>
  The database file: the rows of \<open>books\<close> in insertion order, and the counter that SQLite
  keeps for an \<open>AUTOINCREMENT\<close> key (the largest key ever given out, 0 when none was).
\<close>

record db =
  autoinc :: nat
  books :: "book list"

datatype py_exception =
  TypeError | IndexError | OverflowError | OperationalError | SdkError string

text \<open>
  The \<open>sqlite3\<close> module binds a Python \<open>int\<close> to a parameter as a signed 64-bit integer
  and raises \<open>OverflowError\<close> for an \<open>int\<close> outside that range, before the statement runs.
\<close>

definition in_int64 :: "int \<Rightarrow> bool" where
  "in_int64 i = (- (2 ^ 63) \<le> i \<and> i \<le> 2 ^ 63 - 1)"

text \<open>
  An \<open>INTEGER PRIMARY KEY AUTOINCREMENT\<close> column gets a key one larger than the largest
  key that was ever in the table. Once the largest 64-bit key has been given out SQLite
  refuses the insert (\<open>SQLITE_FULL\<close>, which the module raises as \<open>OperationalError\<close>).
\<close>

definition next_rowid :: "db \<Rightarrow> int" where
  "next_rowid d = 1 + fold max (map id_col (books d)) (int (autoinc d))"

text \<open>
  \<open>add_book_to_db\<close> (lines 27 to 37) inserts a row with the given title and chapter count
  and the status of line 33; \<open>current_chapter\<close> and \<open>full_text\<close> take their defaults \<open>0\<close>
  and \<open>''\<close>. It returns \<open>cursor.lastrowid\<close>. There is no check of the arguments in the
  source; the binding of the chapter count and the allocation of the key can raise, and
  then nothing is inserted.
\<close>

definition add_book_to_db :: "string \<Rightarrow> int \<Rightarrow> db \<Rightarrow> (py_exception + int) \<times> db" where
  "add_book_to_db title' total_chapters' d =
     (if \<not> in_int64 total_chapters' then (Inl OverflowError, d)
      else if 2 ^ 63 - 1 < next_rowid d then (Inl OperationalError, d)
      else
        (let book_id = next_rowid d;
             row = \<lparr>id_col = book_id, title = title', total_chapters = total_chapters',
                    current_chapter = 0, status = status_queued, full_text = []\<rparr>
         in (Inr book_id, \<lparr>autoinc = nat book_id, books = books d @ [row]\<rparr>)))"

text \<open>
  What \<open>fetchone\<close> gives after \<open>SELECT ... WHERE id = ?\<close> has run with a key that could be
  bound: the row with the key, or \<open>None\<close>.
\<close>

definition select_book :: "int \<Rightarrow> db \<Rightarrow> book option" where
  "select_book book_id d = find (\<lambda>r. id_col r = book_id) (books d)"

text \<open>
  \<open>get_book_info\<close> (lines 53 to 58): the binding of the key raises \<open>OverflowError\<close> when
  the key does not fit 64 bits; otherwise the result of \<open>fetchone\<close> is returned.
\<close>

definition get_book_info :: "int \<Rightarrow> db \<Rightarrow> py_exception + book option" where
  "get_book_info book_id d =
     (if \<not> in_int64 book_id then Inl OverflowError else Inr (select_book book_id d))"

text \<open>
  \<open>update_book_progress\<close> (lines 39 to 51). The \<open>SELECT\<close> of line 43 binds the key, an
  \<open>OverflowError\<close> when it does not fit 64 bits. Line 44 subscripts the result of
  \<open>fetchone\<close>: when no row has the key this is \<open>None[0]\<close>, a \<open>TypeError\<close>. Otherwise line 46
  appends the new content to the text read (a text that is empty is falsy, and then the
  new content alone is taken), and the \<open>UPDATE\<close> of lines 47 to 50 binds its parameters,
  an \<open>OverflowError\<close> when the chapter number does not fit 64 bits, and writes the three
  columns of every row with the key. Every exception is raised before a row is written
  and before the commit, so the database is then as it was. The result is the exception
  raised, if any, and the database afterwards.
\<close>

definition update_book_progress ::
  "int \<Rightarrow> int \<Rightarrow> string \<Rightarrow> string \<Rightarrow> db \<Rightarrow> (py_exception + unit) \<times> db" where
  "update_book_progress book_id current_chapter' status' new_content d =
     (if \<not> in_int64 book_id then (Inl OverflowError, d)
      else
        (case select_book book_id d of
           None \<Rightarrow> (Inl TypeError, d)
         | Some fetched \<Rightarrow>
             (let current_text = full_text fetched;
                  full_text' = (if current_text \<noteq> [] then current_text @ new_content
                                else new_content)
              in if \<not> in_int64 current_chapter' then (Inl OverflowError, d)
                 else
                   (Inr (),
                    d\<lparr>books := map (\<lambda>r. if id_col r = book_id
                                          then r\<lparr>current_chapter := current_chapter',
                                                 status := status', full_text := full_text'\<rparr>
                                          else r) (books d)\<rparr>))))"

subsection \<open>The generation service\<close>

text \<open>
  What the SDK does inside the \<open>try\<close> of \<open>call_deepseek_api\<close>: building the client or the
  request raises an exception (an error of the transport or of the service, a subclass of
  \<open>Exception\<close>, given here by its text), or a response arrives; the response carries a list
  of choices, each with a message whose content is a text or \<open>None\<close>.
\<close>

datatype sdk_outcome = SdkRaises string | SdkResponse "string option list"

text \<open>
  The service is outside the program. It is modelled as a script that gives the outcome of
  the \<open>n\<close>-th call made (counting from 0); any behaviour of the service in a run, whatever
  it depends on, is one such script.
\<close>

type_synonym service = "nat \<Rightarrow> sdk_outcome"

record message =
  role :: string
  content :: string

text \<open>
  Lines 74 to 79, the body of the \<open>try\<close>: the exception of the SDK, or
  \<open>response.choices[0].message.content\<close>, where \<open>choices[0]\<close> of an empty list is an
  \<open>IndexError\<close>.
\<close>

definition chat_completion :: "sdk_outcome \<Rightarrow> py_exception + string option" where
  "chat_completion out =
     (case out of
        SdkRaises msg \<Rightarrow> Inl (SdkError msg)
      | SdkResponse choices \<Rightarrow>
          (case choices of [] \<Rightarrow> Inl IndexError | c # _ \<Rightarrow> Inr c))"

text \<open>The text of an exception in an f-string.\<close>

fun exception_text :: "py_exception \<Rightarrow> string" where
  "exception_text TypeError = ''TypeError''"
| "exception_text IndexError = ''list index out of range''"
| "exception_text OverflowError = ''Python int too large to convert to SQLite INTEGER''"
| "exception_text OperationalError = ''database or disk is full''"
| "exception_text (SdkError msg) = msg"

subsection \<open>The world of a run\<close>

text \<open>
  The driver acts on the database and on the service, and shows errors through
  \<open>st.error\<close>. The world also keeps a history, which no function reads: the database after
  every commit of the driver, and every prompt built, with the value of the local variable
  \<open>full_text\<close> and the database at that moment.
\<close>

datatype event =
  Commit db
| PromptBuilt string "message list" db

record world =
  database :: db
  api_calls :: nat
  st_errors :: "string list"
  trace :: "event list"

text \<open>
  \<open>call_deepseek_api\<close> (lines 70 to 82): \<open>except Exception\<close> catches whatever the body of
  the \<open>try\<close> raises, shows it, and returns \<open>None\<close>. The result type still has a place for
  an exception that leaves the function.
\<close>

definition call_deepseek_api ::
  "service \<Rightarrow> string \<Rightarrow> string \<Rightarrow> message list \<Rightarrow> world
     \<Rightarrow> (py_exception + string option) \<times> world" where
  "call_deepseek_api svc api_key model messages w =
     (let w' = w\<lparr>api_calls := Suc (api_calls w)\<rparr>
      in case chat_completion (svc (api_calls w)) of
           Inr c \<Rightarrow> (Inr c, w')
         | Inl e \<Rightarrow>
             (Inr None, w'\<lparr>st_errors := st_errors w' @ [api_error_prefix @ exception_text e]\<rparr>))"

subsection \<open>The driver\<close>

text \<open>The truth value of a draft in \<open>if draft:\<close>: \<open>None\<close> and the empty text are falsy.\<close>

fun truthy :: "string option \<Rightarrow> bool" where
  "truthy None = False"
| "truthy (Some s) = (s \<noteq> [])"

text \<open>The f-strings of lines 94, 99, 111 to 117, and 126.\<close>

definition status_generating :: "int \<Rightarrow> string" where
  "status_generating chapter_num =
     status_generating_prefix @ str_int chapter_num @ status_generating_suffix"

definition prompt_draft :: "int \<Rightarrow> string \<Rightarrow> string \<Rightarrow> string" where
  "prompt_draft chapter_num book_title full_text' =
     draft_prompt_1 @ str_int chapter_num @ draft_prompt_2 @ book_title
       @ draft_prompt_3 @ full_text'"

definition prompt_select :: "int \<Rightarrow> string \<Rightarrow> string \<Rightarrow> string list \<Rightarrow> string" where
  "prompt_select chapter_num book_title full_text' drafts =
     select_prompt_1 @ book_title @ select_prompt_2 @ str_int chapter_num
       @ select_prompt_3 @ full_text'
       @ select_prompt_4 @ drafts ! 0
       @ select_prompt_5 @ drafts ! 1
       @ select_prompt_6 @ drafts ! 2 @ select_prompt_7"

definition new_content_for_db :: "int \<Rightarrow> string \<Rightarrow> string" where
  "new_content_for_db chapter_num best_chapter =
     content_prefix @ str_int chapter_num @ content_suffix @ best_chapter"

text \<open>
  A call of \<open>update_book_progress\<close> by the driver: the commit goes into the history.
\<close>

definition update_progress ::
  "int \<Rightarrow> int \<Rightarrow> string \<Rightarrow> string \<Rightarrow> world \<Rightarrow> (py_exception + unit) \<times> world" where
  "update_progress book_id chapter_num status' new_content w =
     (case update_book_progress book_id chapter_num status' new_content (database w) of
        (Inl e, _) \<Rightarrow> (Inl e, w)
      | (Inr _, d') \<Rightarrow> (Inr (), w\<lparr>database := d', trace := trace w @ [Commit d']\<rparr>))"

text \<open>
  Lines 98 to 104, the loop over \<open>range(3)\<close>: each round builds the prompt from the local
  \<open>full_text\<close>, calls the service and keeps the draft when it is truthy. The pauses of
  \<open>time.sleep\<close> (lines 104 and 130) change nothing in the world and are left out.
\<close>

fun draft_loop ::
  "service \<Rightarrow> string \<Rightarrow> string \<Rightarrow> string \<Rightarrow> int \<Rightarrow> string \<Rightarrow> nat list \<Rightarrow> string list
     \<Rightarrow> world \<Rightarrow> (py_exception + string list) \<times> world" where
  "draft_loop svc api_key model book_title chapter_num full_text' [] drafts w =
     (Inr drafts, w)"
| "draft_loop svc api_key model book_title chapter_num full_text' (i # rest) drafts w =
     (let messages = [\<lparr>role = ''user'',
                        content = prompt_draft chapter_num book_title full_text'\<rparr>];
          w1 = w\<lparr>trace := trace w @ [PromptBuilt full_text' messages (database w)]\<rparr>
      in case call_deepseek_api svc api_key model messages w1 of
           (Inl e, w2) \<Rightarrow> (Inl e, w2)
         | (Inr draft, w2) \<Rightarrow>
             draft_loop svc api_key model book_title chapter_num full_text' rest
               (if truthy draft then drafts @ [the draft] else drafts) w2)"

text \<open>
  How one round of the loop over the chapters ends: the loop goes on with a new value of
  the local \<open>full_text\<close>, or the function returns.
\<close>

datatype flow = Next string | Return

text \<open>Lines 94 to 130, the body of the loop over the chapters.\<close>

definition write_chapter ::
  "service \<Rightarrow> string \<Rightarrow> string \<Rightarrow> string \<Rightarrow> int \<Rightarrow> int \<Rightarrow> int \<Rightarrow> string \<Rightarrow> world
     \<Rightarrow> (py_exception + flow) \<times> world" where
  "write_chapter svc api_key model book_title num_chapters book_id chapter_num full_text' w =
     (case update_progress book_id chapter_num (status_generating chapter_num) [] w of
        (Inl e, w1) \<Rightarrow> (Inl e, w1)
      | (Inr _, w1) \<Rightarrow>
     (case draft_loop svc api_key model book_title chapter_num full_text' [0, 1, 2] [] w1 of
        (Inl e, w2) \<Rightarrow> (Inl e, w2)
      | (Inr drafts, w2) \<Rightarrow>
     if length drafts < 3 then
       (case update_progress book_id chapter_num status_draft_failed [] w2 of
          (Inl e, w3) \<Rightarrow> (Inl e, w3)
        | (Inr _, w3) \<Rightarrow> (Inr Return, w3))
     else
       (let messages = [\<lparr>role = ''user'',
                         content = prompt_select chapter_num book_title full_text' drafts\<rparr>];
            w3 = w2\<lparr>trace := trace w2 @ [PromptBuilt full_text' messages (database w2)]\<rparr>
        in case call_deepseek_api svc api_key model messages w3 of
             (Inl e, w4) \<Rightarrow> (Inl e, w4)
           | (Inr best_chapter, w4) \<Rightarrow>
        if \<not> truthy best_chapter then
          (case update_progress book_id chapter_num status_select_failed [] w4 of
             (Inl e, w5) \<Rightarrow> (Inl e, w5)
           | (Inr _, w5) \<Rightarrow> (Inr Return, w5))
        else
          (let new_content = new_content_for_db chapter_num (the best_chapter);
               full_text'' = full_text' @ new_content;
               status' = (if chapter_num < num_chapters then status_writing
                          else status_done)
           in case update_progress book_id chapter_num status' new_content w4 of
                (Inl e, w5) \<Rightarrow> (Inl e, w5)
              | (Inr _, w5) \<Rightarrow> (Inr (Next full_text''), w5)))))"

text \<open>Line 93, the loop over \<open>range(1, num_chapters + 1)\<close>.\<close>

fun chapter_loop ::
  "service \<Rightarrow> string \<Rightarrow> string \<Rightarrow> string \<Rightarrow> int \<Rightarrow> int \<Rightarrow> int list \<Rightarrow> string \<Rightarrow> world
     \<Rightarrow> (py_exception + unit) \<times> world" where
  "chapter_loop svc api_key model book_title num_chapters book_id [] full_text' w =
     (Inr (), w)"
| "chapter_loop svc api_key model book_title num_chapters book_id (chapter_num # rest)
     full_text' w =
     (case write_chapter svc api_key model book_title num_chapters book_id chapter_num
             full_text' w of
        (Inl e, w') \<Rightarrow> (Inl e, w')
      | (Inr Return, w') \<Rightarrow> (Inr (), w')
      | (Inr (Next full_text''), w') \<Rightarrow>
          chapter_loop svc api_key model book_title num_chapters book_id rest full_text'' w')"

text \<open>
  \<open>writing_process\<close> (lines 87 to 130). An exception of \<open>get_book_info\<close> leaves the
  function; line 91 subscripts its result, a \<open>TypeError\<close> when the book is not in the
  table.
\<close>

definition writing_process ::
  "service \<Rightarrow> string \<Rightarrow> string \<Rightarrow> string \<Rightarrow> int \<Rightarrow> int \<Rightarrow> world
     \<Rightarrow> (py_exception + unit) \<times> world" where
  "writing_process svc api_key model book_title num_chapters book_id w =
     (case get_book_info book_id (database w) of
        Inl e \<Rightarrow> (Inl e, w)
      | Inr None \<Rightarrow> (Inl TypeError, w)
      | Inr (Some book_info) \<Rightarrow>
          chapter_loop svc api_key model book_title num_chapters book_id [1..num_chapters]
            (full_text book_info) w)"

subsection \<open>Notions used in the statements\<close>

text \<open>
  What the \<open>n\<close>-th call of \<open>call_deepseek_api\<close> hands to the driver: the content of the
  first choice, or \<open>None\<close> when the body of the \<open>try\<close> raised.
\<close>

definition api_result :: "service \<Rightarrow> nat \<Rightarrow> string option" where
  "api_result svc n = (case chat_completion (svc n) of Inl e \<Rightarrow> None | Inr c \<Rightarrow> c)"

text \<open>The database after a call of \<open>update_book_progress\<close>.\<close>

definition after_update :: "int \<Rightarrow> int \<Rightarrow> string \<Rightarrow> string \<Rightarrow> db \<Rightarrow> db" where
  "after_update book_id k st seg d = snd (update_book_progress book_id k st seg d)"

text \<open>The message lists of lines 100 and 118.\<close>

definition draft_request :: "int \<Rightarrow> string \<Rightarrow> string \<Rightarrow> message list" where
  "draft_request k book_title ft = [\<lparr>role = ''user'', content = prompt_draft k book_title ft\<rparr>]"

definition select_request :: "int \<Rightarrow> string \<Rightarrow> string \<Rightarrow> string list \<Rightarrow> message list" where
  "select_request k book_title ft ds =
     [\<lparr>role = ''user'', content = prompt_select k book_title ft ds\<rparr>]"

text \<open>
  The drafts that the three calls starting with call \<open>c\<close> leave in \<open>drafts\<close>, and whether
  all three were kept.
\<close>

definition chapter_drafts :: "service \<Rightarrow> nat \<Rightarrow> string list" where
  "chapter_drafts svc c = map the (filter truthy (map (api_result svc) [c ..< c + 3]))"

definition drafts_ok :: "service \<Rightarrow> nat \<Rightarrow> bool" where
  "drafts_ok svc c =
     (truthy (api_result svc c) \<and> truthy (api_result svc (c + 1))
      \<and> truthy (api_result svc (c + 2)))"

text \<open>
  When every chapter before chapter \<open>k\<close> was appended, each took four calls, so the
  choice for chapter \<open>k\<close> is what call \<open>c + 4 (k - 1) + 3\<close> returned, \<open>c\<close> being the number
  of calls made before the run. \<open>chapters_text\<close> is the text that a run of appended
  chapters adds to the book.
\<close>

definition chosen_chapter :: "service \<Rightarrow> nat \<Rightarrow> int \<Rightarrow> string" where
  "chosen_chapter svc c k = the (api_result svc (c + 4 * nat (k - 1) + 3))"

fun chapters_text :: "service \<Rightarrow> nat \<Rightarrow> int list \<Rightarrow> string" where
  "chapters_text svc c [] = []"
| "chapters_text svc c (k # ks) =
     new_content_for_db k (the (api_result svc (c + 3))) @ chapters_text svc (c + 4) ks"

text \<open>The database that an event of the history shows.\<close>

fun event_db :: "event \<Rightarrow> db" where
  "event_db (Commit d) = d"
| "event_db (PromptBuilt ft msgs d) = d"

definition last_db :: "db \<Rightarrow> event list \<Rightarrow> db" where
  "last_db d evs = (if evs = [] then d else event_db (last evs))"

text \<open>
  What holds of every event of a run: a committed row keeps its chapter count and is
  completed only with the last chapter number, and a prompt is built from the text that
  the row holds at that moment.
\<close>

definition event_ok :: "int \<Rightarrow> int \<Rightarrow> string \<Rightarrow> int \<Rightarrow> event \<Rightarrow> bool" where
  "event_ok book_id num_chapters book_title tot e =
     (case e of
        Commit d \<Rightarrow>
          (\<exists>r. get_book_info book_id d = Inr (Some r) \<and> total_chapters r = tot
             \<and> (status r = status_done \<longrightarrow> current_chapter r = num_chapters))
      | PromptBuilt ft msgs d \<Rightarrow>
          (\<exists>r. get_book_info book_id d = Inr (Some r) \<and> full_text r = ft
             \<and> (\<exists>k. msgs = draft_request k book_title ft
                    \<or> (\<exists>ds. msgs = select_request k book_title ft ds))))"

text \<open>
  A book has failed in a database when its status is one of the two error texts.
  \<open>stops_at_failure\<close> reads a history from the database before it: a commit that shows
  the book failed is the last event and leaves chapter number and text as the event
  before it showed them.
\<close>

definition failed_in :: "int \<Rightarrow> db \<Rightarrow> bool" where
  "failed_in book_id d =
     (case get_book_info book_id d of
        Inr (Some r) \<Rightarrow> status r = status_draft_failed \<or> status r = status_select_failed
      | _ \<Rightarrow> False)"

definition same_progress :: "int \<Rightarrow> db \<Rightarrow> db \<Rightarrow> bool" where
  "same_progress book_id d0 d =
     (case (get_book_info book_id d0, get_book_info book_id d) of
        (Inr (Some r0), Inr (Some r)) \<Rightarrow>
          current_chapter r = current_chapter r0 \<and> full_text r = full_text r0
      | _ \<Rightarrow> False)"

fun stops_at_failure :: "int \<Rightarrow> db \<Rightarrow> event list \<Rightarrow> bool" where
  "stops_at_failure book_id prev [] = True"
| "stops_at_failure book_id prev (Commit d # evs) =
     (if failed_in book_id d then evs = [] \<and> same_progress book_id prev d
      else stops_at_failure book_id d evs)"
| "stops_at_failure book_id prev (PromptBuilt ft msgs d # evs) =
     stops_at_failure book_id d evs"

subsection \<open>Scenarios\<close>

text \<open>
  The database file right after \<open>setup_database\<close> (lines 11 to 25) has created the table
  in a new file: no row, no key given out yet. A run starts in a world with that
  database or a later one, no call made and an empty history.
\<close>

definition fresh_db :: db where
  "fresh_db = \<lparr>autoinc = 0, books = []\<rparr>"

definition start_world :: "db \<Rightarrow> world" where
  "start_world d = \<lparr>database = d, api_calls = 0, st_errors = [], trace = []\<rparr>"

text \<open>A book of two chapters and a book of one chapter, each the first of its database.\<close>

definition dune_db :: db where
  "dune_db = snd (add_book_to_db ''Dune'' 2 fresh_db)"

definition tale_db :: db where
  "tale_db = snd (add_book_to_db ''Tale'' 1 fresh_db)"

definition tale_row :: "int \<Rightarrow> string \<Rightarrow> string \<Rightarrow> db" where
  "tale_row k st txt =
     \<lparr>autoinc = 1,
      books = [\<lparr>id_col = 1, title = ''Tale'', total_chapters = 1, current_chapter = k,
                status = st, full_text = txt\<rparr>]\<rparr>"

text \<open>
  Services: one that always answers, one that never does, one whose second call times
  out, one whose fourth call (the first choice) answers with an empty text, and one whose
  eighth call (the second choice) is refused.
\<close>

definition storyteller :: service where
  "storyteller n = SdkResponse [Some ''Once'']"

definition silent :: service where
  "silent n = SdkRaises ''timeout''"

definition two_of_three :: service where
  "two_of_three n = (if n = 1 then SdkRaises ''timeout'' else SdkResponse [Some ''draft''])"

definition no_choice :: service where
  "no_choice n = (if n = 3 then SdkResponse [Some []] else SdkResponse [Some ''draft''])"

definition second_choice_fails :: service where
  "second_choice_fails n =
     (if n = 7 then SdkRaises ''overloaded'' else SdkResponse [Some ''draft''])"

text \<open>
  The databases of the two-chapter book, and its prompts for chapter \<open>k\<close> when the text
  written so far is \<open>ft\<close>, as events of the history.
\<close>

definition dune_state :: "int \<Rightarrow> string \<Rightarrow> string \<Rightarrow> db" where
  "dune_state k st txt =
     \<lparr>autoinc = 1,
      books = [\<lparr>id_col = 1, title = ''Dune'', total_chapters = 2, current_chapter = k,
                status = st, full_text = txt\<rparr>]\<rparr>"

definition dune_prompt :: "int \<Rightarrow> string \<Rightarrow> event" where
  "dune_prompt k ft =
     PromptBuilt ft [\<lparr>role = ''user'', content = prompt_draft k ''Dune'' ft\<rparr>]
       (dune_state k (status_generating k) ft)"

definition dune_choice :: "int \<Rightarrow> string \<Rightarrow> event" where
  "dune_choice k ft =
     PromptBuilt ft
       [\<lparr>role = ''user'',
         content = prompt_select k ''Dune'' ft [''Once'', ''Once'', ''Once'']\<rparr>]
       (dune_state k (status_generating k) ft)"

text \<open>The two prompts of the one-chapter book, as events of the history.\<close>

definition tale_prompt :: event where
  "tale_prompt =
     PromptBuilt [] [\<lparr>role = ''user'', content = prompt_draft 1 ''Tale'' []\<rparr>]
       (tale_row 1 (status_generating 1) [])"

definition tale_choice :: event where
  "tale_choice =
     PromptBuilt []
       [\<lparr>role = ''user'',
         content = prompt_select 1 ''Tale'' [] [''Once'', ''Once'', ''Once'']\<rparr>]
       (tale_row 1 (status_generating 1) [])"

section \<open>The store\<close>

lemma in_int64_1: "in_int64 1"
  by (simp add: in_int64_def)

lemma in_int64_upto:
  assumes "in_int64 n" and "1 \<le> i"
  shows "\<forall>k\<in>set [i..n]. in_int64 k"
  using assms by (auto simp add: in_int64_def)

lemma in_int64_between:
  assumes "in_int64 n" and "1 \<le> k" and "k \<le> n"
  shows "in_int64 k"
  using assms by (simp add: in_int64_def)

lemma get_book_info_Some:
  "get_book_info i d = Inr (Some b) \<longleftrightarrow> in_int64 i \<and> select_book i d = Some b"
  by (simp add: get_book_info_def)

lemma update_book_progress_found:
  assumes "select_book book_id d = Some b" and "in_int64 book_id" and "in_int64 k"
  shows "update_book_progress book_id k st seg d =
     (Inr (), d\<lparr>books := map (\<lambda>r. if id_col r = book_id
                                     then r\<lparr>current_chapter := k,
                                            status := st, full_text := full_text b @ seg\<rparr>
                                     else r) (books d)\<rparr>)"
  using assms by (cases "full_text b = []") (simp_all add: update_book_progress_def Let_def)

lemma find_map_row:
  assumes "\<And>r. id_col (f r) = id_col r"
  shows "find (\<lambda>r. id_col r = i) (map (\<lambda>r. if id_col r = j then f r else r) rows) =
         (if i = j then map_option f (find (\<lambda>r. id_col r = i) rows)
          else find (\<lambda>r. id_col r = i) rows)"
  using assms by (induction rows) auto

lemma select_book_update:
  assumes "select_book book_id d = Some b" and "in_int64 book_id" and "in_int64 k"
  shows "select_book i (snd (update_book_progress book_id k st seg d)) =
         (if i = book_id
          then Some (b\<lparr>current_chapter := k, status := st, full_text := full_text b @ seg\<rparr>)
          else select_book i d)"
proof -
  have f: "find (\<lambda>r. id_col r = book_id) (books d) = Some b"
    using assms(1) by (simp add: select_book_def)
  have g: "id_col b = book_id"
    using f by (auto simp: find_Some_iff)
  show ?thesis
    using f g by (simp add: update_book_progress_found [OF assms] select_book_def find_map_row)
qed

lemma get_book_info_update:
  assumes "get_book_info book_id d = Inr (Some b)" and "in_int64 k"
  shows "get_book_info i (snd (update_book_progress book_id k st seg d)) =
         (if i = book_id
          then Inr (Some (b\<lparr>current_chapter := k, status := st,
                            full_text := full_text b @ seg\<rparr>))
          else get_book_info i d)"
proof -
  have r: "in_int64 book_id" and f: "select_book book_id d = Some b"
    using assms(1) by (simp_all add: get_book_info_Some)
  show ?thesis
    using r select_book_update [OF f r assms(2), of i st seg]
    by (auto simp add: get_book_info_def)
qed

lemma update_book_progress_ok:
  assumes "get_book_info book_id d = Inr (Some b)" and "in_int64 k"
  shows "fst (update_book_progress book_id k st seg d) = Inr ()"
  using assms by (simp add: update_book_progress_def get_book_info_def Let_def split: if_splits)

lemma update_book_progress_too_large:
  assumes "get_book_info book_id d = Inr (Some b)" and "\<not> in_int64 k"
  shows "update_book_progress book_id k st seg d = (Inl OverflowError, d)"
  using assms by (simp add: update_book_progress_def get_book_info_def Let_def split: if_splits)





lemma add_book_to_db_fresh_db:
  "in_int64 n \<Longrightarrow> add_book_to_db t n fresh_db =
     (Inr 1, \<lparr>autoinc = 1,
          books = [\<lparr>id_col = 1, title = t, total_chapters = n, current_chapter = 0,
                    status = status_queued, full_text = []\<rparr>]\<rparr>)"
  by (simp add: add_book_to_db_def next_rowid_def fresh_db_def)

lemma in_int64_small: "in_int64 0" "in_int64 2" "in_int64 3"
  by (simp_all add: in_int64_def)







text \<open>
  C6, as the code has it. For a key that no row has, \<open>update_book_progress\<close> does not
  return: an exception leaves it, the \<open>TypeError\<close> of line 44 when the key fits 64 bits and
  the \<open>OverflowError\<close> of the binding of line 43 when it does not, and the database is as
  it was.
\<close>

theorem update_book_progress_missing:
  assumes "select_book book_id d = None"
  shows "update_book_progress book_id unit_index st text_segment d =
           (Inl (if in_int64 book_id then TypeError else OverflowError), d)"
  using assms by (simp add: update_book_progress_def)

text \<open>
  On the empty table the call for key 7 ends in the \<open>TypeError\<close> and the call for key
  \<open>2 ^ 63\<close> in the \<open>OverflowError\<close>; the table stays empty.
\<close>

theorem update_book_progress_missing_witness:
  "select_book 7 fresh_db = None
   \<and> update_book_progress 7 1 status_writing ''text'' fresh_db = (Inl TypeError, fresh_db)
   \<and> select_book (2 ^ 63) fresh_db = None
   \<and> update_book_progress (2 ^ 63) 1 status_writing ''text'' fresh_db
        = (Inl OverflowError, fresh_db)"
proof -
  have h: "select_book 7 fresh_db = None" and h': "select_book (2 ^ 63) fresh_db = None"
    by (simp_all add: select_book_def fresh_db_def)
  show ?thesis
    using h h' update_book_progress_missing [OF h, of 1 status_writing "''text''"]
      update_book_progress_missing [OF h', of 1 status_writing "''text''"]
    by (simp add: in_int64_def)
qed

text \<open>
  C6, as the claim has it, fails: on the empty table the call for key 7 ends in an
  exception, not in a return.
\<close>

theorem update_book_progress_raises_counterexample:
  "fst (update_book_progress 7 1 status_writing ''text'' fresh_db) = Inl TypeError
   \<and> fst (update_book_progress 7 1 status_writing ''text'' fresh_db) \<noteq> Inr ()"
  by (simp add: update_book_progress_def select_book_def fresh_db_def in_int64_def)

section \<open>The service wrapper and the steps of the driver\<close>

text \<open>
  C7. Whatever the SDK does, no exception leaves \<open>call_deepseek_api\<close>: it returns
  \<open>None\<close> when the SDK raised or the response had no choice, and the content of the first
  choice otherwise.
\<close>

theorem call_deepseek_api_never_raises:
  "fst (call_deepseek_api svc api_key model messages w) =
     Inr (case svc (api_calls w) of
            SdkRaises msg \<Rightarrow> None
          | SdkResponse [] \<Rightarrow> None
          | SdkResponse (c # cs) \<Rightarrow> c)"
  by (simp add: call_deepseek_api_def chat_completion_def Let_def
           split: sdk_outcome.splits list.splits)

text \<open>
  A call changes the count of calls and the errors shown, nothing else; the loop over
  \<open>range(3)\<close> makes three calls and logs three prompts.
\<close>

lemma call_deepseek_api_world:
  "\<exists>errs. call_deepseek_api svc api_key model messages w =
     (Inr (api_result svc (api_calls w)),
      w\<lparr>api_calls := Suc (api_calls w), st_errors := errs\<rparr>)"
proof (cases "chat_completion (svc (api_calls w))")
  case (Inl e)
  then have "call_deepseek_api svc api_key model messages w =
     (Inr (api_result svc (api_calls w)),
      w\<lparr>api_calls := Suc (api_calls w),
        st_errors := st_errors w @ [api_error_prefix @ exception_text e]\<rparr>)"
    by (simp add: call_deepseek_api_def api_result_def Let_def)
  then show ?thesis ..
next
  case (Inr c)
  then have "call_deepseek_api svc api_key model messages w =
     (Inr (api_result svc (api_calls w)),
      w\<lparr>api_calls := Suc (api_calls w), st_errors := st_errors w\<rparr>)"
    by (simp add: call_deepseek_api_def api_result_def Let_def)
  then show ?thesis ..
qed

lemma draft_loop_world:
  "\<exists>errs. draft_loop svc api_key model book_title k ft rounds drafts w =
     (Inr (drafts @ map the (filter truthy
             (map (api_result svc) [api_calls w ..< api_calls w + length rounds]))),
      w\<lparr>api_calls := api_calls w + length rounds, st_errors := errs,
        trace := trace w @ replicate (length rounds)
                   (PromptBuilt ft (draft_request k book_title ft) (database w))\<rparr>)"
proof (induction rounds arbitrary: drafts w)
  case Nil
  have "draft_loop svc api_key model book_title k ft [] drafts w =
     (Inr (drafts @ map the (filter truthy
             (map (api_result svc) [api_calls w ..< api_calls w + length ([]::nat list)]))),
      w\<lparr>api_calls := api_calls w + length ([]::nat list), st_errors := st_errors w,
        trace := trace w @ replicate (length ([]::nat list))
                   (PromptBuilt ft (draft_request k book_title ft) (database w))\<rparr>)"
    by simp
  then show ?case ..
next
  case (Cons i rounds)
  let ?w1 = "w\<lparr>trace := trace w @ [PromptBuilt ft (draft_request k book_title ft) (database w)]\<rparr>"
  obtain errs where c: "call_deepseek_api svc api_key model (draft_request k book_title ft) ?w1 =
     (Inr (api_result svc (api_calls w)),
      ?w1\<lparr>api_calls := Suc (api_calls w), st_errors := errs\<rparr>)"
    using call_deepseek_api_world [of svc api_key model _ ?w1] by auto
  let ?w2 = "?w1\<lparr>api_calls := Suc (api_calls w), st_errors := errs\<rparr>"
  let ?ds = "if truthy (api_result svc (api_calls w))
             then drafts @ [the (api_result svc (api_calls w))] else drafts"
  obtain errs' where r: "draft_loop svc api_key model book_title k ft rounds ?ds ?w2 =
     (Inr (?ds @ map the (filter truthy
             (map (api_result svc) [api_calls ?w2 ..< api_calls ?w2 + length rounds]))),
      ?w2\<lparr>api_calls := api_calls ?w2 + length rounds, st_errors := errs',
        trace := trace ?w2 @ replicate (length rounds)
                   (PromptBuilt ft (draft_request k book_title ft) (database ?w2))\<rparr>)"
    using Cons.IH [of ?ds ?w2] by blast
  have u: "[api_calls w ..< api_calls w + length (i # rounds)] =
           api_calls w # [Suc (api_calls w) ..< Suc (api_calls w) + length rounds]"
    by (simp add: upt_rec)
  have "draft_loop svc api_key model book_title k ft (i # rounds) drafts w =
        draft_loop svc api_key model book_title k ft rounds ?ds ?w2"
    using c by (simp add: draft_request_def Let_def)
  also note r
  finally have "draft_loop svc api_key model book_title k ft (i # rounds) drafts w =
     (Inr (drafts @ map the (filter truthy
             (map (api_result svc) [api_calls w ..< api_calls w + length (i # rounds)]))),
      w\<lparr>api_calls := api_calls w + length (i # rounds), st_errors := errs',
        trace := trace w @ replicate (length (i # rounds))
                   (PromptBuilt ft (draft_request k book_title ft) (database w))\<rparr>)"
    unfolding u by (simp add: replicate_app_Cons_same)
  then show ?case ..
qed

lemma call_deepseek_api_D:
  assumes "call_deepseek_api svc api_key model messages w = (r, w')"
  shows "r = Inr (api_result svc (api_calls w))" and "database w' = database w"
    and "trace w' = trace w" and "api_calls w' = Suc (api_calls w)"
  using assms call_deepseek_api_world [of svc api_key model messages w] by auto

lemma upt_three: "[c ..< c + 3] = [c, c + 1, c + 2]"
  by (simp add: upt_rec numeral_3_eq_3)

lemma length_chapter_drafts: "length (chapter_drafts svc c) < 3 \<longleftrightarrow> \<not> drafts_ok svc c"
  by (simp add: chapter_drafts_def drafts_ok_def upt_three)

lemma draft_loop_D:
  assumes "draft_loop svc api_key model book_title k ft [0, 1, 2] [] w = (r, w')"
  shows "r = Inr (chapter_drafts svc (api_calls w))" and "database w' = database w"
    and "trace w' = trace w @ replicate 3 (PromptBuilt ft (draft_request k book_title ft)
                                             (database w))"
    and "api_calls w' = api_calls w + 3"
proof -
  have len3: "length [0::nat, 1, 2] = 3" by simp
  obtain errs where "draft_loop svc api_key model book_title k ft [0, 1, 2] [] w =
     (Inr ([] @ map the (filter truthy
             (map (api_result svc) [api_calls w ..< api_calls w + length [0::nat, 1, 2]]))),
      w\<lparr>api_calls := api_calls w + length [0::nat, 1, 2], st_errors := errs,
        trace := trace w @ replicate (length [0::nat, 1, 2])
                   (PromptBuilt ft (draft_request k book_title ft) (database w))\<rparr>)"
    using draft_loop_world [of svc api_key model book_title k ft "[0, 1, 2]" "[]" w]
    by blast
  then have e: "(r, w') =
     (Inr (chapter_drafts svc (api_calls w)),
      w\<lparr>api_calls := api_calls w + 3, st_errors := errs,
        trace := trace w @ replicate 3
                   (PromptBuilt ft (draft_request k book_title ft) (database w))\<rparr>)"
    unfolding len3 assms by (simp add: chapter_drafts_def)
  show "r = Inr (chapter_drafts svc (api_calls w))" using e by simp
  show "database w' = database w" using e by simp
  show "trace w' = trace w @ replicate 3 (PromptBuilt ft (draft_request k book_title ft)
                                             (database w))" using e by simp
  show "api_calls w' = api_calls w + 3" using e by simp
qed

lemma get_book_info_after_update:
  assumes "get_book_info book_id d = Inr (Some b)" and "in_int64 k"
  shows "get_book_info i (after_update book_id k st seg d) =
         (if i = book_id
          then Inr (Some (b\<lparr>current_chapter := k, status := st,
                            full_text := full_text b @ seg\<rparr>))
          else get_book_info i d)"
  unfolding after_update_def by (rule get_book_info_update [OF assms])

lemma update_progress_found:
  assumes "get_book_info book_id (database w) = Inr (Some b)" and "in_int64 k"
  shows "update_progress book_id k st seg w =
     (Inr (), w\<lparr>database := after_update book_id k st seg (database w),
               trace := trace w @ [Commit (after_update book_id k st seg (database w))]\<rparr>)"
proof -
  have "fst (update_book_progress book_id k st seg (database w)) = Inr ()"
    by (rule update_book_progress_ok [OF assms])
  then show ?thesis
    by (auto simp add: update_progress_def after_update_def split: prod.splits sum.splits)
qed

lemma update_progress_too_large:
  assumes "get_book_info book_id (database w) = Inr (Some b)" and "\<not> in_int64 k"
  shows "update_progress book_id k st seg w = (Inl OverflowError, w)"
  by (simp add: update_progress_def update_book_progress_too_large [OF assms])

lemma update_progress_D:
  assumes "get_book_info book_id (database w) = Inr (Some b)" and "in_int64 k"
      and "update_progress book_id k st seg w = (r, w')"
  shows "r = Inr ()" and "database w' = after_update book_id k st seg (database w)"
    and "trace w' = trace w @ [Commit (after_update book_id k st seg (database w))]"
    and "api_calls w' = api_calls w"
  using assms(3) unfolding update_progress_found [OF assms(1,2)] by auto

subsection \<open>The ways a chapter ends\<close>

lemma write_chapter_too_large:
  assumes "get_book_info book_id (database w) = Inr (Some b)" and "\<not> in_int64 k"
  shows "write_chapter svc api_key model book_title num_chapters book_id k ft w
           = (Inl OverflowError, w)"
  by (simp add: write_chapter_def update_progress_too_large [OF assms])

lemma write_chapter_draft_failed:
  fixes k :: int and w :: world and book_id :: int
  assumes found: "get_book_info book_id (database w) = Inr (Some b)"
      and run: "write_chapter svc api_key model book_title num_chapters book_id k ft w = (r, w')"
      and kr: "in_int64 k"
      and bad: "\<not> drafts_ok svc (api_calls w)"
  defines "d1 \<equiv> after_update book_id k (status_generating k) [] (database w)"
  defines "d2 \<equiv> after_update book_id k status_draft_failed [] d1"
  shows "r = Inr Return" and "database w' = d2" and "api_calls w' = api_calls w + 3"
    and "trace w' = trace w @ Commit d1
                      # replicate 3 (PromptBuilt ft (draft_request k book_title ft) d1)
                      @ [Commit d2]"
proof -
  obtain r1 w1 where u: "update_progress book_id k (status_generating k) [] w = (r1, w1)"
    by fastforce
  note f1 = update_progress_D [OF found kr u, folded d1_def]
  obtain r2 w2 where dl:
    "draft_loop svc api_key model book_title k ft [0, 1, 2] [] w1 = (r2, w2)"
    by fastforce
  note f2 = draft_loop_D [OF dl, unfolded f1]
  have found2: "get_book_info book_id (database w2) =
     Inr (Some (b\<lparr>current_chapter := k, status := status_generating k,
             full_text := full_text b @ []\<rparr>))"
    unfolding f2 d1_def using get_book_info_after_update [OF found kr, of book_id] by simp
  obtain r3 w3 where u3: "update_progress book_id k status_draft_failed [] w2 = (r3, w3)"
    by fastforce
  note f3 = update_progress_D [OF found2 kr u3, unfolded f2, folded d2_def]
  have short: "length (chapter_drafts svc (api_calls w)) < 3"
    using bad by (simp add: length_chapter_drafts)
  have e: "(r, w') = (Inr Return, w3)"
    using run short
    unfolding write_chapter_def u dl f1(1) f2(1) prod.case sum.case
    by (simp add: u3 f3(1))
  show "r = Inr Return" using e by simp
  show "database w' = d2" using e f3 by simp
  show "api_calls w' = api_calls w + 3" using e f3 by simp
  show "trace w' = trace w @ Commit d1
                      # replicate 3 (PromptBuilt ft (draft_request k book_title ft) d1)
                      @ [Commit d2]" using e f3 by simp
qed

lemma write_chapter_select_failed:
  fixes k :: int and w :: world and book_id :: int
  assumes found: "get_book_info book_id (database w) = Inr (Some b)"
      and run: "write_chapter svc api_key model book_title num_chapters book_id k ft w = (r, w')"
      and kr: "in_int64 k"
      and good: "drafts_ok svc (api_calls w)"
      and bad: "\<not> truthy (api_result svc (api_calls w + 3))"
  defines "d1 \<equiv> after_update book_id k (status_generating k) [] (database w)"
  defines "d2 \<equiv> after_update book_id k status_select_failed [] d1"
  shows "r = Inr Return" and "database w' = d2" and "api_calls w' = api_calls w + 4"
    and "trace w' = trace w @ Commit d1
                      # replicate 3 (PromptBuilt ft (draft_request k book_title ft) d1)
                      @ [PromptBuilt ft (select_request k book_title ft
                                           (chapter_drafts svc (api_calls w))) d1,
                         Commit d2]"
proof -
  obtain r1 w1 where u: "update_progress book_id k (status_generating k) [] w = (r1, w1)"
    by fastforce
  note f1 = update_progress_D [OF found kr u, folded d1_def]
  obtain r2 w2 where dl:
    "draft_loop svc api_key model book_title k ft [0, 1, 2] [] w1 = (r2, w2)"
    by fastforce
  note f2 = draft_loop_D [OF dl, unfolded f1]
  let ?msgs = "[\<lparr>role = ''user'',
                 content = prompt_select k book_title ft (chapter_drafts svc (api_calls w))\<rparr>]"
  let ?w3 = "w2\<lparr>trace := trace w2 @ [PromptBuilt ft ?msgs (database w2)]\<rparr>"
  obtain r4 w4 where c: "call_deepseek_api svc api_key model ?msgs ?w3 = (r4, w4)"
    by fastforce
  note f4 = call_deepseek_api_D [OF c]
  have r4: "r4 = Inr (api_result svc (api_calls w + 3))"
    using f4(1) f2 by simp
  have found4: "get_book_info book_id (database w4) =
     Inr (Some (b\<lparr>current_chapter := k, status := status_generating k,
             full_text := full_text b @ []\<rparr>))"
    unfolding f4 using f2 get_book_info_after_update [OF found kr, of book_id]
    by (simp add: d1_def)
  have long: "\<not> length (chapter_drafts svc (api_calls w)) < 3"
    using good by (simp add: length_chapter_drafts)
  obtain r5 w5 where u5: "update_progress book_id k status_select_failed [] w4 = (r5, w5)"
    by fastforce
  note f5 = update_progress_D [OF found4 kr u5]
  have e: "(r, w') = (Inr Return, w5)"
    using run long bad
    unfolding write_chapter_def u dl f1(1) f2(1) prod.case sum.case Let_def c r4
    by (simp add: u5 f5(1))
  show "r = Inr Return" using e by simp
  show "database w' = d2" using e f5 f4 f2 by (simp add: d2_def)
  show "api_calls w' = api_calls w + 4" using e f5 f4 f2 by simp
  show "trace w' = trace w @ Commit d1
                      # replicate 3 (PromptBuilt ft (draft_request k book_title ft) d1)
                      @ [PromptBuilt ft (select_request k book_title ft
                                           (chapter_drafts svc (api_calls w))) d1,
                         Commit d2]"
    using e f5 f4 f2 by (simp add: d2_def select_request_def)
qed

lemma write_chapter_appended:
  fixes k :: int and w :: world and book_id :: int
  assumes found: "get_book_info book_id (database w) = Inr (Some b)"
      and run: "write_chapter svc api_key model book_title num_chapters book_id k ft w = (r, w')"
      and kr: "in_int64 k"
      and good: "drafts_ok svc (api_calls w)"
      and best: "truthy (api_result svc (api_calls w + 3))"
  defines "d1 \<equiv> after_update book_id k (status_generating k) [] (database w)"
  defines "seg \<equiv> new_content_for_db k (the (api_result svc (api_calls w + 3)))"
  defines "d2 \<equiv> after_update book_id k
                   (if k < num_chapters then status_writing else status_done) seg d1"
  shows "r = Inr (Next (ft @ seg))" and "database w' = d2"
    and "api_calls w' = api_calls w + 4"
    and "trace w' = trace w @ Commit d1
                      # replicate 3 (PromptBuilt ft (draft_request k book_title ft) d1)
                      @ [PromptBuilt ft (select_request k book_title ft
                                           (chapter_drafts svc (api_calls w))) d1,
                         Commit d2]"
proof -
  obtain r1 w1 where u: "update_progress book_id k (status_generating k) [] w = (r1, w1)"
    by fastforce
  note f1 = update_progress_D [OF found kr u, folded d1_def]
  obtain r2 w2 where dl:
    "draft_loop svc api_key model book_title k ft [0, 1, 2] [] w1 = (r2, w2)"
    by fastforce
  note f2 = draft_loop_D [OF dl, unfolded f1]
  let ?msgs = "[\<lparr>role = ''user'',
                 content = prompt_select k book_title ft (chapter_drafts svc (api_calls w))\<rparr>]"
  let ?w3 = "w2\<lparr>trace := trace w2 @ [PromptBuilt ft ?msgs (database w2)]\<rparr>"
  obtain r4 w4 where c: "call_deepseek_api svc api_key model ?msgs ?w3 = (r4, w4)"
    by fastforce
  note f4 = call_deepseek_api_D [OF c]
  have r4: "r4 = Inr (api_result svc (api_calls w + 3))"
    using f4(1) f2 by simp
  have found4: "get_book_info book_id (database w4) =
     Inr (Some (b\<lparr>current_chapter := k, status := status_generating k,
             full_text := full_text b @ []\<rparr>))"
    unfolding f4 using f2 get_book_info_after_update [OF found kr, of book_id]
    by (simp add: d1_def)
  have long: "\<not> length (chapter_drafts svc (api_calls w)) < 3"
    using good by (simp add: length_chapter_drafts)
  obtain r5 w5 where u5: "update_progress book_id k
       (if k < num_chapters then status_writing else status_done) seg w4 = (r5, w5)"
    by fastforce
  note f5 = update_progress_D [OF found4 kr u5]
  have e: "(r, w') = (Inr (Next (ft @ seg)), w5)"
    using run long best
    unfolding write_chapter_def u dl f1(1) f2(1) prod.case sum.case Let_def c r4
    by (simp add: u5 [unfolded seg_def] f5(1) seg_def)
  show "r = Inr (Next (ft @ seg))" using e by simp
  show "database w' = d2" using e f5 f4 f2 by (simp add: d2_def)
  show "api_calls w' = api_calls w + 4" using e f5 f4 f2 by simp
  show "trace w' = trace w @ Commit d1
                      # replicate 3 (PromptBuilt ft (draft_request k book_title ft) d1)
                      @ [PromptBuilt ft (select_request k book_title ft
                                           (chapter_drafts svc (api_calls w))) d1,
                         Commit d2]"
    using e f5 f4 f2 by (simp add: d2_def select_request_def)
qed

subsection \<open>The status texts differ\<close>

lemma generating_not_done: "status_generating k \<noteq> status_done"
  by (simp add: status_generating_def status_generating_prefix_def status_done_def)

lemma generating_not_failed:
  "status_generating k \<noteq> status_draft_failed" "status_generating k \<noteq> status_select_failed"
  by (simp_all add: status_generating_def status_generating_prefix_def
        status_draft_failed_def status_select_failed_def)

lemma failed_not_done:
  "status_draft_failed \<noteq> status_done" "status_select_failed \<noteq> status_done"
  by (simp_all add: status_draft_failed_def status_select_failed_def status_done_def)

lemma writing_not_done: "status_writing \<noteq> status_done"
  by (simp add: status_writing_def status_done_def)

lemma appended_not_failed:
  "status_writing \<noteq> status_draft_failed" "status_writing \<noteq> status_select_failed"
  "status_done \<noteq> status_draft_failed" "status_done \<noteq> status_select_failed"
  by (simp_all add: status_draft_failed_def status_select_failed_def status_done_def
        status_writing_def)

lemma queued_not_done: "status_queued \<noteq> status_done"
  by (simp add: status_queued_def status_done_def)

section \<open>The loop over the chapters\<close>

lemma writing_process_found:
  assumes "get_book_info book_id (database w) = Inr (Some b)"
  shows "writing_process svc api_key model book_title num_chapters book_id w =
         chapter_loop svc api_key model book_title num_chapters book_id [1..num_chapters]
           (full_text b) w"
  using assms by (simp add: writing_process_def)

lemma chapter_loop_events_ok:
  assumes "get_book_info book_id (database w) = Inr (Some b)"
      and "full_text b = ft" and "total_chapters b = tot"
      and "\<forall>k\<in>set ks. k \<le> num_chapters"
      and "chapter_loop svc api_key model book_title num_chapters book_id ks ft w = (r, w')"
  shows "\<exists>evs. trace w' = trace w @ evs
            \<and> (\<forall>e\<in>set evs. event_ok book_id num_chapters book_title tot e)"
  using assms
proof (induction ks arbitrary: ft w b)
  case Nil
  then show ?case by simp
next
  case (Cons k ks)
  note found = Cons.prems(1)
  show ?case
  proof (cases "in_int64 k")
  case False
  have "(r, w') = (Inl OverflowError, w)"
    using Cons.prems(5) by (simp add: write_chapter_too_large [OF found False])
  then show ?thesis by simp
  next
  case kr: True
  obtain r1 w1 where wc:
    "write_chapter svc api_key model book_title num_chapters book_id k ft w = (r1, w1)"
    by fastforce
  let ?d1 = "after_update book_id k (status_generating k) [] (database w)"
  have row1: "get_book_info book_id ?d1 =
      Inr (Some (b\<lparr>current_chapter := k, status := status_generating k, full_text := ft\<rparr>))"
    using get_book_info_after_update [OF found kr, of book_id] Cons.prems(2) by simp
  have ok1: "event_ok book_id num_chapters book_title tot (Commit ?d1)"
    using row1 Cons.prems(3) by (simp add: event_ok_def generating_not_done)
  have okP: "event_ok book_id num_chapters book_title tot
               (PromptBuilt ft (draft_request k book_title ft) ?d1)"
    using row1 by (auto simp add: event_ok_def)
  have okS: "event_ok book_id num_chapters book_title tot
               (PromptBuilt ft (select_request k book_title ft ds) ?d1)" for ds
    using row1 by (auto simp add: event_ok_def)
  show ?thesis
  proof (cases "drafts_ok svc (api_calls w)")
    case False
    note f = write_chapter_draft_failed [OF found wc kr False]
    have row2: "get_book_info book_id (database w1) =
      Inr (Some (b\<lparr>current_chapter := k, status := status_draft_failed, full_text := ft\<rparr>))"
      unfolding f using get_book_info_after_update [OF row1 kr, of book_id] by simp
    have ok2: "event_ok book_id num_chapters book_title tot (Commit (database w1))"
      using row2 Cons.prems(3) by (simp add: event_ok_def failed_not_done)
    have "(r, w') = (Inr (), w1)"
      using Cons.prems(5) by (simp add: wc f(1))
    then show ?thesis
      using f(4) ok1 okP ok2 [unfolded f(2)] by auto
  next
    case True
    show ?thesis
    proof (cases "truthy (api_result svc (api_calls w + 3))")
      case False
      note f = write_chapter_select_failed [OF found wc kr True False]
      have row2: "get_book_info book_id (database w1) =
        Inr (Some (b\<lparr>current_chapter := k, status := status_select_failed, full_text := ft\<rparr>))"
        unfolding f using get_book_info_after_update [OF row1 kr, of book_id] by simp
      have ok2: "event_ok book_id num_chapters book_title tot (Commit (database w1))"
        using row2 Cons.prems(3) by (simp add: event_ok_def failed_not_done)
      have "(r, w') = (Inr (), w1)"
        using Cons.prems(5) by (simp add: wc f(1))
      then show ?thesis
        using f(4) ok1 okP okS ok2 [unfolded f(2)] by auto
    next
      case best: True
      note f = write_chapter_appended [OF found wc kr True best]
      let ?seg = "new_content_for_db k (the (api_result svc (api_calls w + 3)))"
      let ?b2 = "b\<lparr>current_chapter := k,
                     status := (if k < num_chapters then status_writing else status_done),
                     full_text := ft @ ?seg\<rparr>"
      have row2: "get_book_info book_id (database w1) = Inr (Some ?b2)"
        unfolding f using get_book_info_after_update [OF row1 kr, of book_id] by simp
      have "k \<le> num_chapters" using Cons.prems(4) by simp
      then have ok2: "event_ok book_id num_chapters book_title tot (Commit (database w1))"
        using row2 Cons.prems(3) by (simp add: event_ok_def writing_not_done)
      have rest: "chapter_loop svc api_key model book_title num_chapters book_id ks
                    (ft @ ?seg) w1 = (r, w')"
        using Cons.prems(5) by (simp add: wc f(1))
      have "\<exists>evs. trace w' = trace w1 @ evs
            \<and> (\<forall>e\<in>set evs. event_ok book_id num_chapters book_title tot e)"
        using Cons.IH [OF row2 _ _ _ rest] Cons.prems(3,4) by simp
      then obtain evs where t: "trace w' = trace w1 @ evs"
        and oks: "\<forall>e\<in>set evs. event_ok book_id num_chapters book_title tot e"
        by blast
      show ?thesis
        using t oks f(4) ok1 okP okS ok2 [unfolded f(2)] by auto
    qed
  qed
  qed
qed

lemma last_db_Cons: "last_db prev (e # evs) = last_db (event_db e) evs"
  by (simp add: last_db_def)

lemma stops_at_failure_split:
  assumes "stops_at_failure book_id prev (pre @ Commit d # post)"
      and "failed_in book_id d"
  shows "post = [] \<and> same_progress book_id (last_db prev pre) d"
  using assms
proof (induction pre arbitrary: prev)
  case Nil
  then show ?case by (simp add: last_db_def)
next
  case (Cons e pre)
  show ?case
  proof (cases e)
    case (Commit d0)
    then have "stops_at_failure book_id d0 (pre @ Commit d # post)"
      using Cons.prems(1) by (simp split: if_splits)
    then show ?thesis
      using Cons.IH [of d0] Cons.prems(2) Commit by (simp add: last_db_Cons)
  next
    case (PromptBuilt ft msgs d0)
    then have "stops_at_failure book_id d0 (pre @ Commit d # post)"
      using Cons.prems(1) by simp
    then show ?thesis
      using Cons.IH [of d0] Cons.prems(2) PromptBuilt by (simp add: last_db_Cons)
  qed
qed

lemma replicate_three: "replicate 3 x = [x, x, x]"
  by (simp add: numeral_3_eq_3)

lemma chapter_loop_stops:
  assumes "get_book_info book_id (database w) = Inr (Some b)"
      and "chapter_loop svc api_key model book_title num_chapters book_id ks ft w = (r, w')"
  shows "\<exists>evs. trace w' = trace w @ evs
           \<and> stops_at_failure book_id (database w) evs
           \<and> database w' = last_db (database w) evs
           \<and> (\<forall>d. Commit d \<in> set evs \<longrightarrow> failed_in book_id d \<longrightarrow> r = Inr ())"
  using assms
proof (induction ks arbitrary: ft w b)
  case Nil
  then show ?case by (simp add: last_db_def)
next
  case (Cons k ks)
  note found = Cons.prems(1)
  show ?case
  proof (cases "in_int64 k")
  case False
  have "(r, w') = (Inl OverflowError, w)"
    using Cons.prems(2) by (simp add: write_chapter_too_large [OF found False])
  then show ?thesis by (simp add: last_db_def)
  next
  case kr: True
  obtain r1 w1 where wc:
    "write_chapter svc api_key model book_title num_chapters book_id k ft w = (r1, w1)"
    by fastforce
  let ?d1 = "after_update book_id k (status_generating k) [] (database w)"
  have row1: "get_book_info book_id ?d1 =
      Inr (Some (b\<lparr>current_chapter := k, status := status_generating k\<rparr>))"
    using get_book_info_after_update [OF found kr, of book_id] by simp
  have nf1: "\<not> failed_in book_id ?d1"
    using row1 by (simp add: failed_in_def generating_not_failed)
  show ?thesis
  proof (cases "drafts_ok svc (api_calls w)")
    case False
    note f = write_chapter_draft_failed [OF found wc kr False]
    have row2: "get_book_info book_id (database w1) =
      Inr (Some (b\<lparr>current_chapter := k, status := status_draft_failed\<rparr>))"
      unfolding f using get_book_info_after_update [OF row1 kr, of book_id] by simp
    have f2: "failed_in book_id (database w1)" and s2: "same_progress book_id ?d1 (database w1)"
      using row1 row2 by (simp_all add: failed_in_def same_progress_def)
    have e: "(r, w') = (Inr (), w1)"
      using Cons.prems(2) by (simp add: wc f(1))
    have "stops_at_failure book_id (database w)
            (Commit ?d1 # replicate 3 (PromptBuilt ft (draft_request k book_title ft) ?d1)
              @ [Commit (database w1)])"
      using nf1 f2 s2 by (simp add: replicate_three)
    then show ?thesis
      using e f(4) f(2) by (auto simp: last_db_def)
  next
    case True
    show ?thesis
    proof (cases "truthy (api_result svc (api_calls w + 3))")
      case False
      note f = write_chapter_select_failed [OF found wc kr True False]
      have row2: "get_book_info book_id (database w1) =
        Inr (Some (b\<lparr>current_chapter := k, status := status_select_failed\<rparr>))"
        unfolding f using get_book_info_after_update [OF row1 kr, of book_id] by simp
      have f2: "failed_in book_id (database w1)"
        and s2: "same_progress book_id ?d1 (database w1)"
        using row1 row2 by (simp_all add: failed_in_def same_progress_def)
      have e: "(r, w') = (Inr (), w1)"
        using Cons.prems(2) by (simp add: wc f(1))
      have "stops_at_failure book_id (database w)
              (Commit ?d1 # replicate 3 (PromptBuilt ft (draft_request k book_title ft) ?d1)
                @ [PromptBuilt ft (select_request k book_title ft
                                     (chapter_drafts svc (api_calls w))) ?d1,
                   Commit (database w1)])"
        using nf1 f2 s2 by (simp add: replicate_three)
      then show ?thesis
        using e f(4) f(2) by (auto simp: last_db_def)
    next
      case best: True
      note f = write_chapter_appended [OF found wc kr True best]
      let ?seg = "new_content_for_db k (the (api_result svc (api_calls w + 3)))"
      let ?b2 = "b\<lparr>current_chapter := k,
                     status := (if k < num_chapters then status_writing else status_done),
                     full_text := full_text b @ ?seg\<rparr>"
      have row2: "get_book_info book_id (database w1) = Inr (Some ?b2)"
        unfolding f using get_book_info_after_update [OF row1 kr, of book_id] by simp
      have nf2: "\<not> failed_in book_id (database w1)"
        using row2 by (simp add: failed_in_def appended_not_failed)
      have rest: "chapter_loop svc api_key model book_title num_chapters book_id ks
                    (ft @ ?seg) w1 = (r, w')"
        using Cons.prems(2) by (simp add: wc f(1))
      obtain evs where t: "trace w' = trace w1 @ evs"
        and s: "stops_at_failure book_id (database w1) evs"
        and l: "database w' = last_db (database w1) evs"
        and n: "\<forall>d. Commit d \<in> set evs \<longrightarrow> failed_in book_id d \<longrightarrow> r = Inr ()"
        using Cons.IH [OF row2 rest] by blast
      let ?E = "Commit ?d1 # replicate 3 (PromptBuilt ft (draft_request k book_title ft) ?d1)
                @ [PromptBuilt ft (select_request k book_title ft
                                     (chapter_drafts svc (api_calls w))) ?d1,
                   Commit (database w1)]"
      have t': "trace w' = trace w @ ?E @ evs"
        using t f(4) f(2) by simp
      have s': "stops_at_failure book_id (database w) (?E @ evs)"
        using nf1 nf2 s by (simp add: replicate_three)
      have l': "database w' = last_db (database w) (?E @ evs)"
        using l by (simp add: last_db_def)
      have n': "\<forall>d. Commit d \<in> set (?E @ evs) \<longrightarrow> failed_in book_id d \<longrightarrow> r = Inr ()"
        using n nf1 nf2 by auto
      show ?thesis
        using t' s' l' n' by blast
    qed
  qed
  qed
qed

lemma chapter_loop_trace_grows:
  assumes "get_book_info book_id (database w) = Inr (Some b)"
      and "chapter_loop svc api_key model book_title num_chapters book_id ks ft w = (r, w')"
      and "\<forall>k\<in>set ks. in_int64 k"
  shows "r = Inr () \<and> (\<exists>evs. trace w' = trace w @ evs)"
proof -
  have "\<exists>evs. trace w' = trace w @ evs
           \<and> stops_at_failure book_id (database w) evs
           \<and> database w' = last_db (database w) evs
           \<and> (\<forall>d. Commit d \<in> set evs \<longrightarrow> failed_in book_id d \<longrightarrow> r = Inr ())"
    by (rule chapter_loop_stops [OF assms(1,2)])
  moreover have "r = Inr ()"
    using assms
  proof (induction ks arbitrary: ft w b)
    case Nil
    then show ?case by simp
  next
    case (Cons k ks)
    note found = Cons.prems(1)
    have kr: "in_int64 k" and krs: "\<forall>k\<in>set ks. in_int64 k"
      using Cons.prems(3) by simp_all
    obtain r1 w1 where wc:
      "write_chapter svc api_key model book_title num_chapters book_id k ft w = (r1, w1)"
      by fastforce
    show ?case
    proof (cases "drafts_ok svc (api_calls w)")
      case False
      note f = write_chapter_draft_failed [OF found wc kr False]
      show ?thesis using Cons.prems(2) by (simp add: wc f(1))
    next
      case True
      show ?thesis
      proof (cases "truthy (api_result svc (api_calls w + 3))")
        case False
        note f = write_chapter_select_failed [OF found wc kr True False]
        show ?thesis using Cons.prems(2) by (simp add: wc f(1))
      next
        case best: True
        note f = write_chapter_appended [OF found wc kr True best]
        have row1: "get_book_info book_id
            (after_update book_id k (status_generating k) [] (database w)) =
            Inr (Some (b\<lparr>current_chapter := k, status := status_generating k\<rparr>))"
          using get_book_info_after_update [OF found kr, of book_id] by simp
        have row2: "\<exists>b2. get_book_info book_id (database w1) = Inr (Some b2)"
          unfolding f using get_book_info_after_update [OF row1 kr, of book_id] by simp
        then obtain b2 where row2: "get_book_info book_id (database w1) = Inr (Some b2)" ..
        have rest: "chapter_loop svc api_key model book_title num_chapters book_id ks
            (ft @ new_content_for_db k (the (api_result svc (api_calls w + 3)))) w1 = (r, w')"
          using Cons.prems(2) by (simp add: wc f(1))
        show ?thesis by (rule Cons.IH [OF row2 rest krs])
      qed
    qed
  qed
  ultimately show ?thesis by blast
qed

lemma chapter_loop_appended_prefix:
  assumes "get_book_info book_id (database w) = Inr (Some b)"
      and "\<forall>n < 4 * length ks1. truthy (api_result svc (api_calls w + n))"
      and "chapter_loop svc api_key model book_title num_chapters book_id (ks1 @ ks2) ft w
             = (r, w')"
      and "\<forall>k\<in>set ks1. in_int64 k"
  shows "\<exists>w1 evs.
           chapter_loop svc api_key model book_title num_chapters book_id ks2
             (ft @ chapters_text svc (api_calls w) ks1) w1 = (r, w')
         \<and> api_calls w1 = api_calls w + 4 * length ks1
         \<and> get_book_info book_id (database w1) =
             Inr (Some (if ks1 = [] then b
                   else b\<lparr>current_chapter := last ks1,
                          status := (if last ks1 < num_chapters then status_writing
                                     else status_done),
                          full_text := full_text b @ chapters_text svc (api_calls w) ks1\<rparr>))
         \<and> trace w1 = trace w @ evs
         \<and> (if ks1 = [] then w1 = w else evs \<noteq> [] \<and> last evs = Commit (database w1))"
  using assms
proof (induction ks1 arbitrary: ft w b)
  case Nil
  then show ?case by (intro exI [of _ w] exI [of _ "[]"]) simp
next
  case (Cons k ks)
  note found = Cons.prems(1)
  have kr: "in_int64 k" and krs: "\<forall>k\<in>set ks. in_int64 k"
    using Cons.prems(4) by simp_all
  let ?c = "api_calls w"
  obtain r1 w1 where wc:
    "write_chapter svc api_key model book_title num_chapters book_id k ft w = (r1, w1)"
    by fastforce
  have all4: "n < 4 \<Longrightarrow> truthy (api_result svc (?c + n))" for n
    using Cons.prems(2) by simp
  have t0: "truthy (api_result svc (?c + 0))" and t1: "truthy (api_result svc (?c + 1))"
    and t2: "truthy (api_result svc (?c + 2))" and t3: "truthy (api_result svc (?c + 3))"
    by (rule all4, simp)+
  have good: "drafts_ok svc ?c"
    using t0 t1 t2 by (simp add: drafts_ok_def)
  note f = write_chapter_appended [OF found wc kr good t3]
  let ?d1 = "after_update book_id k (status_generating k) [] (database w)"
  let ?seg = "new_content_for_db k (the (api_result svc (?c + 3)))"
  let ?b2 = "b\<lparr>current_chapter := k,
                 status := (if k < num_chapters then status_writing else status_done),
                 full_text := full_text b @ ?seg\<rparr>"
  have row1: "get_book_info book_id ?d1 =
      Inr (Some (b\<lparr>current_chapter := k, status := status_generating k\<rparr>))"
    using get_book_info_after_update [OF found kr, of book_id] by simp
  have row2: "get_book_info book_id (database w1) = Inr (Some ?b2)"
    unfolding f using get_book_info_after_update [OF row1 kr, of book_id] by simp
  have rest: "chapter_loop svc api_key model book_title num_chapters book_id (ks @ ks2)
                (ft @ ?seg) w1 = (r, w')"
    using Cons.prems(3) by (simp add: wc f(1))
  have ok': "\<forall>n < 4 * length ks. truthy (api_result svc (api_calls w1 + n))"
  proof (intro allI impI)
    fix n assume "n < 4 * length ks"
    then have "n + 4 < 4 * length (k # ks)" by simp
    then have "truthy (api_result svc (?c + (n + 4)))"
      using Cons.prems(2) by blast
    then show "truthy (api_result svc (api_calls w1 + n))"
      by (simp add: f(3) add.commute add.left_commute)
  qed
  obtain w2 evs where
        loop: "chapter_loop svc api_key model book_title num_chapters book_id ks2
                 ((ft @ ?seg) @ chapters_text svc (api_calls w1) ks) w2 = (r, w')"
    and calls: "api_calls w2 = api_calls w1 + 4 * length ks"
    and row: "get_book_info book_id (database w2) =
             Inr (Some (if ks = [] then ?b2
                   else ?b2\<lparr>current_chapter := last ks,
                          status := (if last ks < num_chapters then status_writing
                                     else status_done),
                          full_text := full_text ?b2 @ chapters_text svc (api_calls w1) ks\<rparr>))"
    and tr: "trace w2 = trace w1 @ evs"
    and lst: "if ks = [] then w2 = w1 else evs \<noteq> [] \<and> last evs = Commit (database w2)"
    using Cons.IH [OF row2 ok' rest krs] by blast
  let ?E = "Commit ?d1 # replicate 3 (PromptBuilt ft (draft_request k book_title ft) ?d1)
                @ [PromptBuilt ft (select_request k book_title ft
                                     (chapter_drafts svc (api_calls w))) ?d1,
                   Commit (database w1)]"
  have a: "chapter_loop svc api_key model book_title num_chapters book_id ks2
             (ft @ chapters_text svc ?c (k # ks)) w2 = (r, w')"
    using loop by (simp add: f(3))
  have b: "api_calls w2 = ?c + 4 * length (k # ks)"
    using calls by (simp add: f(3))
  have c: "get_book_info book_id (database w2) =
             Inr (Some (if k # ks = [] then b
                   else b\<lparr>current_chapter := last (k # ks),
                          status := (if last (k # ks) < num_chapters then status_writing
                                     else status_done),
                          full_text := full_text b @ chapters_text svc ?c (k # ks)\<rparr>))"
    using row by (simp add: f(3))
  have d: "trace w2 = trace w @ ?E @ evs"
    using tr f(4) f(2) by simp
  have e: "if k # ks = [] then w2 = w
           else ?E @ evs \<noteq> [] \<and> last (?E @ evs) = Commit (database w2)"
  proof (cases "ks = []")
    case True
    then have "w2 = w1" and "evs = []"
      using lst tr by simp_all
    then show ?thesis by simp
  next
    case False
    then show ?thesis using lst by simp
  qed
  show ?case
    using a b c d e by blast
qed

lemma chapters_text_upto:
  "chapters_text svc c [i..j] =
     concat (map (\<lambda>k. new_content_for_db k (the (api_result svc (c + 4 * nat (k - i) + 3))))
               [i..j])"
proof (induction i j arbitrary: c rule: upto.induct)
  case (1 i j)
  show ?case
  proof (cases "i \<le> j")
    case False
    then show ?thesis by simp
  next
    case True
    have shift: "c + 4 + 4 * nat (k - (i + 1)) + 3 = c + 4 * nat (k - i) + 3"
      if "k \<in> set [i + 1..j]" for k
    proof -
      have "i + 1 \<le> k" using that by simp
      then have "nat (k - i) = Suc (nat (k - (i + 1)))" by linarith
      then show ?thesis by simp
    qed
    have "chapters_text svc c [i..j] =
            new_content_for_db i (the (api_result svc (c + 3)))
              @ chapters_text svc (c + 4) [i + 1..j]"
      by (simp add: upto_rec1 [OF True])
    also have "chapters_text svc (c + 4) [i + 1..j] =
       concat (map (\<lambda>k. new_content_for_db k
                          (the (api_result svc (c + 4 + 4 * nat (k - (i + 1)) + 3))))
               [i + 1..j])"
      by (rule "1.IH" [OF True])
    also have "\<dots> =
       concat (map (\<lambda>k. new_content_for_db k (the (api_result svc (c + 4 * nat (k - i) + 3))))
               [i + 1..j])"
    proof -
      have "map (\<lambda>k. new_content_for_db k
                          (the (api_result svc (c + 4 + 4 * nat (k - (i + 1)) + 3))))
               [i + 1..j] =
            map (\<lambda>k. new_content_for_db k (the (api_result svc (c + 4 * nat (k - i) + 3))))
               [i + 1..j]"
        by (rule map_cong [OF refl]) (simp only: shift)
      then show ?thesis by (rule arg_cong)
    qed
    finally show ?thesis
      by (simp add: upto_rec1 [OF True])
  qed
qed

lemma chapters_text_chosen:
  "chapters_text svc c [1..n] =
     concat (map (\<lambda>k. content_prefix @ str_int k @ content_suffix @ chosen_chapter svc c k)
               [1..n])"
  unfolding chapters_text_upto by (simp add: chosen_chapter_def new_content_for_db_def)

section \<open>Runs of the scenarios\<close>

lemma str_int_1: "str_int 1 = ''1''"
  by (simp add: str_int_def)

lemma str_int_2: "str_int 2 = ''2''"
  by (simp add: str_int_def)

lemma dune_row:
  "get_book_info 1 dune_db =
     Inr (Some \<lparr>id_col = 1, title = ''Dune'', total_chapters = 2, current_chapter = 0,
           status = status_queued, full_text = []\<rparr>)"
  by (simp add: dune_db_def add_book_to_db_fresh_db in_int64_def get_book_info_def
        select_book_def)

lemma dune_world_row:
  "get_book_info 1 (database (start_world dune_db)) =
     Inr (Some \<lparr>id_col = 1, title = ''Dune'', total_chapters = 2, current_chapter = 0,
           status = status_queued, full_text = []\<rparr>)"
  by (simp add: start_world_def dune_row)

lemma tale_db_row: "tale_db = tale_row 0 status_queued []"
  by (simp add: tale_db_def tale_row_def add_book_to_db_fresh_db in_int64_def)

lemma tale_row_found:
  "get_book_info 1 (tale_row k st txt) =
     Inr (Some \<lparr>id_col = 1, title = ''Tale'', total_chapters = 1, current_chapter = k,
           status = st, full_text = txt\<rparr>)"
  by (simp add: tale_row_def get_book_info_def select_book_def in_int64_def)

lemma tale_told_world:
  "writing_process storyteller ''key'' ''deepseek-chat'' ''Tale'' 1 1 (start_world tale_db) =
     (Inr (),
      \<lparr>database = tale_row 1 status_done (new_content_for_db 1 ''Once''),
       api_calls = 4, st_errors = [],
       trace =
         [Commit (tale_row 1 (status_generating 1) []),
          tale_prompt, tale_prompt, tale_prompt, tale_choice,
          Commit (tale_row 1 status_done (new_content_for_db 1 ''Once''))]\<rparr>)"
  by (simp add: tale_prompt_def tale_choice_def tale_db_row tale_row_def start_world_def
        writing_process_def get_book_info_def select_book_def in_int64_def
        write_chapter_def update_progress_def
        update_book_progress_def call_deepseek_api_def chat_completion_def
        storyteller_def Let_def)

lemma tale_untold_world:
  "writing_process silent ''key'' ''deepseek-chat'' ''Tale'' 1 1 (start_world tale_db) =
     (Inr (),
      \<lparr>database = tale_row 1 status_draft_failed [],
       api_calls = 3,
       st_errors = [api_error_prefix @ ''timeout'', api_error_prefix @ ''timeout'',
                    api_error_prefix @ ''timeout''],
       trace =
         [Commit (tale_row 1 (status_generating 1) []),
          tale_prompt, tale_prompt, tale_prompt,
          Commit (tale_row 1 status_draft_failed [])]\<rparr>)"
  by (simp add: tale_prompt_def tale_db_row tale_row_def start_world_def
        writing_process_def get_book_info_def select_book_def in_int64_def
        write_chapter_def update_progress_def
        update_book_progress_def call_deepseek_api_def chat_completion_def
        silent_def Let_def)

lemma dune_state_found:
  "get_book_info 1 (dune_state k st txt) =
     Inr (Some \<lparr>id_col = 1, title = ''Dune'', total_chapters = 2, current_chapter = k,
           status = st, full_text = txt\<rparr>)"
  by (simp add: dune_state_def get_book_info_def select_book_def in_int64_def)

lemma dune_told_trace:
  "trace (snd (writing_process storyteller ''key'' ''deepseek-chat'' ''Dune'' 2 1
                 (start_world dune_db))) =
     [Commit (dune_state 1 (status_generating 1) []),
      dune_prompt 1 [], dune_prompt 1 [], dune_prompt 1 [], dune_choice 1 [],
      Commit (dune_state 1 status_writing (new_content_for_db 1 ''Once'')),
      Commit (dune_state 2 (status_generating 2) (new_content_for_db 1 ''Once'')),
      dune_prompt 2 (new_content_for_db 1 ''Once''),
      dune_prompt 2 (new_content_for_db 1 ''Once''),
      dune_prompt 2 (new_content_for_db 1 ''Once''),
      dune_choice 2 (new_content_for_db 1 ''Once''),
      Commit (dune_state 2 status_done
                (new_content_for_db 1 ''Once'' @ new_content_for_db 2 ''Once''))]"
  by (simp add: dune_prompt_def dune_choice_def dune_state_def dune_db_def
        add_book_to_db_fresh_db start_world_def upto_rec1
        writing_process_def get_book_info_def select_book_def in_int64_def
        write_chapter_def update_progress_def
        update_book_progress_def call_deepseek_api_def chat_completion_def
        storyteller_def Let_def)

lemma new_content_not_empty: "new_content_for_db k t \<noteq> []"
  by (simp add: new_content_for_db_def content_prefix_def)

section \<open>What a run does\<close>

text \<open>
  C2, as the code has it. When fewer than three of the three calls for the drafts of
  chapter 1 return a text that is not empty, the run returns without an exception after
  exactly these three calls, and the history of the run is: the commit of the generating
  status, the three prompts, the commit of the status of the failed drafts. Both commits
  leave the text of the book as it was, so no chapter text is appended. The chapter
  number is 1, not 0: line 94 and line 107 write the number of the chapter being
  attempted.
\<close>

theorem draft_failure_stops:
  assumes found: "get_book_info book_id (database w) = Inr (Some b)"
      and pos: "1 \<le> num_chapters"
      and few: "length (filter truthy (map (api_result svc)
                  [api_calls w ..< api_calls w + 3])) < 3"
      and run: "writing_process svc api_key model book_title num_chapters book_id w = (r, w')"
  shows "r = Inr ()
       \<and> get_book_info book_id (database w') =
           Inr (Some (b\<lparr>current_chapter := 1, status := status_draft_failed\<rparr>))
       \<and> api_calls w' = api_calls w + 3
       \<and> (\<exists>d1. get_book_info book_id d1 =
                   Inr (Some (b\<lparr>current_chapter := 1, status := status_generating 1\<rparr>))
              \<and> trace w' = trace w @ Commit d1
                   # replicate 3 (PromptBuilt (full_text b)
                       [\<lparr>role = ''user'',
                         content = prompt_draft 1 book_title (full_text b)\<rparr>] d1)
                   @ [Commit (database w')])"
proof -
  have loop: "chapter_loop svc api_key model book_title num_chapters book_id
                (1 # [2..num_chapters]) (full_text b) w = (r, w')"
    using run found upto_rec1 [OF pos] by (simp add: writing_process_def)
  obtain r1 w1 where wc:
    "write_chapter svc api_key model book_title num_chapters book_id 1 (full_text b) w
       = (r1, w1)"
    by fastforce
  have kr: "in_int64 1" by (rule in_int64_1)
  have bad: "\<not> drafts_ok svc (api_calls w)"
    using few length_chapter_drafts [of svc "api_calls w"] by (simp add: chapter_drafts_def)
  note f = write_chapter_draft_failed [OF found wc kr bad]
  let ?d1 = "after_update book_id 1 (status_generating 1) [] (database w)"
  have row1: "get_book_info book_id ?d1 =
      Inr (Some (b\<lparr>current_chapter := 1, status := status_generating 1\<rparr>))"
    using get_book_info_after_update [OF found kr, of book_id] by simp
  have row2: "get_book_info book_id (database w1) =
      Inr (Some (b\<lparr>current_chapter := 1, status := status_draft_failed\<rparr>))"
    unfolding f using get_book_info_after_update [OF row1 kr, of book_id] by simp
  have e: "(r, w') = (Inr (), w1)"
    using loop by (simp add: wc f(1))
  have tr: "trace w1 = trace w @ Commit ?d1
                   # replicate 3 (PromptBuilt (full_text b)
                       [\<lparr>role = ''user'',
                         content = prompt_draft 1 book_title (full_text b)\<rparr>] ?d1)
                   @ [Commit (database w1)]"
    using f(4) f(2) by (simp add: draft_request_def)
  show ?thesis
    using e row1 row2 f(3) tr by blast
qed

text \<open>
  A book of two chapters, the second call timing out: the book ends with chapter number
  1, the status of the failed drafts and an empty text.
\<close>

theorem draft_failure_stops_witness:
  "get_book_info 1 (database (start_world dune_db)) =
     Inr (Some \<lparr>id_col = 1, title = ''Dune'', total_chapters = 2, current_chapter = 0,
           status = status_queued, full_text = []\<rparr>)
   \<and> length (filter truthy (map (api_result two_of_three) [0 ..< 3])) = 2
   \<and> fst (writing_process two_of_three ''key'' ''deepseek-chat'' ''Dune'' 2 1
            (start_world dune_db)) = Inr ()
   \<and> get_book_info 1 (database (snd (writing_process two_of_three ''key'' ''deepseek-chat''
                                        ''Dune'' 2 1 (start_world dune_db)))) =
       Inr (Some \<lparr>id_col = 1, title = ''Dune'', total_chapters = 2, current_chapter = 1,
             status = status_draft_failed, full_text = []\<rparr>)
   \<and> api_calls (snd (writing_process two_of_three ''key'' ''deepseek-chat''
                        ''Dune'' 2 1 (start_world dune_db))) = 3"
proof -
  have h1: "get_book_info 1 (database (start_world dune_db)) =
     Inr (Some \<lparr>id_col = 1, title = ''Dune'', total_chapters = 2, current_chapter = 0,
           status = status_queued, full_text = []\<rparr>)"
    by (simp add: start_world_def dune_row)
  have h2: "(1::int) \<le> 2" by simp
  have n: "length (filter truthy (map (api_result two_of_three) [0 ..< 3])) = 2"
    by (simp add: numeral_3_eq_3 api_result_def two_of_three_def chat_completion_def)
  have h3: "length (filter truthy (map (api_result two_of_three)
              [api_calls (start_world dune_db) ..< api_calls (start_world dune_db) + 3])) < 3"
    using n by (simp add: start_world_def)
  have h4: "writing_process two_of_three ''key'' ''deepseek-chat'' ''Dune'' 2 1
              (start_world dune_db) =
            (fst (writing_process two_of_three ''key'' ''deepseek-chat'' ''Dune'' 2 1
                    (start_world dune_db)),
             snd (writing_process two_of_three ''key'' ''deepseek-chat'' ''Dune'' 2 1
                    (start_world dune_db)))"
    by simp
  show ?thesis
    using draft_failure_stops [OF h1 h2 h3 h4] h1 n by (simp add: start_world_def)
qed

text \<open>
  C2, as the claim has it, fails on the chapter number: it was 0 before the run and is
  1 after it.
\<close>

theorem position_after_draft_failure_counterexample:
  "get_book_info 1 dune_db =
     Inr (Some \<lparr>id_col = 1, title = ''Dune'', total_chapters = 2, current_chapter = 0,
                status = status_queued, full_text = []\<rparr>)
   \<and> get_book_info 1 (database (snd (writing_process two_of_three ''key''
           ''deepseek-chat'' ''Dune'' 2 1 (start_world dune_db)))) =
     Inr (Some \<lparr>id_col = 1, title = ''Dune'', total_chapters = 2, current_chapter = 1,
                status = status_draft_failed, full_text = []\<rparr>)"
  by (simp add: dune_db_def add_book_to_db_fresh_db start_world_def writing_process_def
        get_book_info_def select_book_def in_int64_def upto_rec1 write_chapter_def
        update_progress_def update_book_progress_def call_deepseek_api_def
        chat_completion_def two_of_three_def Let_def)

text \<open>
  C3, as the code has it. Let \<open>k\<close> be a chapter of the run, a number from 1 to the
  chapter count that fits the 64 bits of the column \<open>current_chapter\<close>. Let every call
  for the chapters before chapter \<open>k\<close> and the
  three calls for the drafts of chapter \<open>k\<close> return a text that is not empty, and let the
  call for the choice of chapter \<open>k\<close> fail or return an empty text. Then the run makes no
  further call and returns without an exception,
  the status is that of the failed choice, and the text is the one the book had when
  chapter \<open>k\<close> began (the chapters before \<open>k\<close>), which the commit of the generating status
  of chapter \<open>k\<close> shows too. The chapter number is \<open>k\<close>, not \<open>k - 1\<close>.
\<close>

theorem arbitration_failure_stops:
  assumes found: "get_book_info book_id (database w) = Inr (Some b)"
      and k: "1 \<le> k" "k \<le> num_chapters"
      and fits: "in_int64 k"
      and ok: "\<forall>n < 4 * nat (k - 1) + 3. truthy (api_result svc (api_calls w + n))"
      and bad: "\<not> truthy (api_result svc (api_calls w + 4 * nat (k - 1) + 3))"
      and run: "writing_process svc api_key model book_title num_chapters book_id w = (r, w')"
  shows "r = Inr ()
       \<and> get_book_info book_id (database w') =
           Inr (Some (b\<lparr>current_chapter := k, status := status_select_failed,
                   full_text := full_text b @ concat (map
                      (\<lambda>j. content_prefix @ str_int j @ content_suffix
                            @ chosen_chapter svc (api_calls w) j) [1..k - 1])\<rparr>))
       \<and> api_calls w' = api_calls w + 4 * nat k
       \<and> (\<exists>evs d1. trace w' = trace w @ evs @ [Commit (database w')]
              \<and> Commit d1 \<in> set evs
              \<and> get_book_info book_id d1 =
                  Inr (Some (b\<lparr>current_chapter := k, status := status_generating k,
                          full_text := full_text b @ concat (map
                            (\<lambda>j. content_prefix @ str_int j @ content_suffix
                                  @ chosen_chapter svc (api_calls w) j) [1..k - 1])\<rparr>)))"
proof -
  let ?c = "api_calls w"
  let ?ks1 = "[1..k - 1]"
  let ?text = "chapters_text svc ?c ?ks1"
  have split: "[1..num_chapters] = ?ks1 @ k # [k + 1..num_chapters]"
    using k by (rule upto_split3)
  have len: "length ?ks1 = nat (k - 1)" by simp
  note kr = fits
  have krs: "\<forall>j\<in>set ?ks1. in_int64 j"
    using fits k(1) by (auto simp add: in_int64_def)
  have ok1: "\<forall>n < 4 * length ?ks1. truthy (api_result svc (?c + n))"
    using ok unfolding len by simp
  have loop: "chapter_loop svc api_key model book_title num_chapters book_id
                (?ks1 @ k # [k + 1..num_chapters]) (full_text b) w = (r, w')"
    using run unfolding writing_process_found [OF found] split .
  obtain w1 evs1 where
        rest: "chapter_loop svc api_key model book_title num_chapters book_id
                 (k # [k + 1..num_chapters]) (full_text b @ ?text) w1 = (r, w')"
    and calls: "api_calls w1 = ?c + 4 * length ?ks1"
    and row: "get_book_info book_id (database w1) =
             Inr (Some (if ?ks1 = [] then b
                   else b\<lparr>current_chapter := last ?ks1,
                          status := (if last ?ks1 < num_chapters then status_writing
                                     else status_done),
                          full_text := full_text b @ ?text\<rparr>))"
    and tr: "trace w1 = trace w @ evs1"
    using chapter_loop_appended_prefix [OF found ok1 loop krs] by blast
  obtain r2 w2 where wc:
    "write_chapter svc api_key model book_title num_chapters book_id k
       (full_text b @ ?text) w1 = (r2, w2)"
    by fastforce
  have three: "n < 3 \<Longrightarrow> truthy (api_result svc (api_calls w1 + n))" for n
    using ok by (simp add: calls add.assoc)
  have "truthy (api_result svc (api_calls w1 + 0))"
    and "truthy (api_result svc (api_calls w1 + 1))"
    and "truthy (api_result svc (api_calls w1 + 2))"
    by (rule three, simp)+
  then have good: "drafts_ok svc (api_calls w1)"
    by (simp add: drafts_ok_def)
  have bad1: "\<not> truthy (api_result svc (api_calls w1 + 3))"
    using bad by (simp add: calls)
  note f = write_chapter_select_failed [OF row wc kr good bad1]
  let ?b1 = "if ?ks1 = [] then b
                   else b\<lparr>current_chapter := last ?ks1,
                          status := (if last ?ks1 < num_chapters then status_writing
                                     else status_done),
                          full_text := full_text b @ ?text\<rparr>"
  let ?d1 = "after_update book_id k (status_generating k) [] (database w1)"
  have text0: "?ks1 = [] \<Longrightarrow> ?text = []" by simp
  have row1: "get_book_info book_id ?d1 =
      Inr (Some (b\<lparr>current_chapter := k, status := status_generating k,
              full_text := full_text b @ ?text\<rparr>))"
    using get_book_info_after_update [OF row kr, of book_id] text0 by (simp split: if_splits)
  have row2: "get_book_info book_id (database w2) =
      Inr (Some (b\<lparr>current_chapter := k, status := status_select_failed,
              full_text := full_text b @ ?text\<rparr>))"
    unfolding f using get_book_info_after_update [OF row1 kr, of book_id] by simp
  have e: "(r, w') = (Inr (), w2)"
    using rest by (simp add: wc f(1))
  let ?E = "evs1 @ Commit ?d1
              # replicate 3 (PromptBuilt (full_text b @ ?text)
                   (draft_request k book_title (full_text b @ ?text)) ?d1)
              @ [PromptBuilt (full_text b @ ?text)
                   (select_request k book_title (full_text b @ ?text)
                      (chapter_drafts svc (api_calls w1))) ?d1]"
  have tr2: "trace w2 = trace w @ ?E @ [Commit (database w2)]"
    using f(4) f(2) tr by simp
  have mem: "Commit ?d1 \<in> set ?E" by simp
  have calls2: "api_calls w2 = ?c + 4 * nat k"
    using f(3) calls k by (simp add: nat_diff_distrib)
  have "r = Inr ()" using e by simp
  moreover have "get_book_info book_id (database w') =
      Inr (Some (b\<lparr>current_chapter := k, status := status_select_failed,
              full_text := full_text b @ ?text\<rparr>))"
    using e row2 by simp
  moreover have "api_calls w' = ?c + 4 * nat k" using e calls2 by simp
  moreover have "\<exists>evs d1. trace w' = trace w @ evs @ [Commit (database w')]
              \<and> Commit d1 \<in> set evs
              \<and> get_book_info book_id d1 =
                  Inr (Some (b\<lparr>current_chapter := k, status := status_generating k,
                          full_text := full_text b @ ?text\<rparr>))"
    using e tr2 mem row1 by blast
  ultimately show ?thesis
    unfolding chapters_text_chosen by blast
qed

text \<open>
  A book of two chapters, the choice of chapter 2 refused: the book ends with chapter
  number 2, the status of the failed choice and the text of chapter 1 alone.
\<close>

theorem arbitration_failure_stops_witness:
  "get_book_info 1 (database (start_world dune_db)) =
     Inr (Some \<lparr>id_col = 1, title = ''Dune'', total_chapters = 2, current_chapter = 0,
           status = status_queued, full_text = []\<rparr>)
   \<and> \<not> truthy (api_result second_choice_fails 7)
   \<and> fst (writing_process second_choice_fails ''key'' ''deepseek-chat'' ''Dune'' 2 1
            (start_world dune_db)) = Inr ()
   \<and> get_book_info 1 (database (snd (writing_process second_choice_fails ''key''
                         ''deepseek-chat'' ''Dune'' 2 1 (start_world dune_db)))) =
       Inr (Some \<lparr>id_col = 1, title = ''Dune'', total_chapters = 2, current_chapter = 2,
             status = status_select_failed,
             full_text = content_prefix @ ''1'' @ content_suffix @ ''draft''\<rparr>)
   \<and> api_calls (snd (writing_process second_choice_fails ''key'' ''deepseek-chat''
                        ''Dune'' 2 1 (start_world dune_db))) = 8"
proof -
  have h2: "(1::int) \<le> 2" and h3: "(2::int) \<le> 2" by simp_all
  have c0: "api_calls (start_world dune_db) = 0" by (simp add: start_world_def)
  have h4: "\<forall>n < 4 * nat (2 - 1) + 3.
              truthy (api_result second_choice_fails (api_calls (start_world dune_db) + n))"
    by (simp add: c0 api_result_def second_choice_fails_def chat_completion_def)
  have b: "\<not> truthy (api_result second_choice_fails 7)"
    by (simp add: api_result_def second_choice_fails_def chat_completion_def)
  have h5: "\<not> truthy (api_result second_choice_fails
                (api_calls (start_world dune_db) + 4 * nat (2 - 1) + 3))"
    using b by (simp add: c0)
  have ch: "chosen_chapter second_choice_fails 0 1 = ''draft''"
    by (simp add: chosen_chapter_def api_result_def second_choice_fails_def
          chat_completion_def)
  show ?thesis
    using arbitration_failure_stops [OF dune_world_row h2 h3 in_int64_small(2) h4 h5
            prod.collapse [symmetric]]
      dune_world_row b
    by (simp add: c0 ch str_int_1)
qed

text \<open>
  C3, as the claim has it, fails on the chapter number: with an empty choice for
  chapter 1 it was 0 before the run and is 1 after it.
\<close>

theorem position_after_arbitration_failure_counterexample:
  "get_book_info 1 dune_db =
     Inr (Some \<lparr>id_col = 1, title = ''Dune'', total_chapters = 2, current_chapter = 0,
                status = status_queued, full_text = []\<rparr>)
   \<and> get_book_info 1 (database (snd (writing_process no_choice ''key''
           ''deepseek-chat'' ''Dune'' 2 1 (start_world dune_db)))) =
     Inr (Some \<lparr>id_col = 1, title = ''Dune'', total_chapters = 2, current_chapter = 1,
                status = status_select_failed, full_text = []\<rparr>)"
  by (simp add: dune_db_def add_book_to_db_fresh_db start_world_def writing_process_def
        get_book_info_def select_book_def in_int64_def upto_rec1 write_chapter_def
        update_progress_def update_book_progress_def call_deepseek_api_def
        chat_completion_def no_choice_def Let_def)

text \<open>
  C9. When the chapter count is at least 1 and fits the 64 bits of the column
  \<open>total_chapters\<close>, which holds the count of every book of the table, and every call of
  the run returns a text
  that is not empty, the run returns without an exception, and the book ends with the
  chapter count as chapter number, the completed status, and as text the text it had
  (none for a new book) followed, for each chapter from 1 to the count in this order, by
  the heading with the chapter number and the chosen text. For every chapter \<open>k\<close> the
  history has the commit that appended it: chapter number \<open>k\<close>, the chapters up to \<open>k\<close>
  as text, and the writing status when \<open>k\<close> is below the count, the completed status when
  \<open>k\<close> is the count.
\<close>

theorem full_run_completes:
  assumes found: "get_book_info book_id (database w) = Inr (Some b)"
      and pos: "1 \<le> num_chapters"
      and fits: "in_int64 num_chapters"
      and ok: "\<forall>n < 4 * nat num_chapters. truthy (api_result svc (api_calls w + n))"
      and run: "writing_process svc api_key model book_title num_chapters book_id w = (r, w')"
  shows "r = Inr ()
       \<and> get_book_info book_id (database w') =
           Inr (Some (b\<lparr>current_chapter := num_chapters, status := status_done,
                   full_text := full_text b @ concat (map
                      (\<lambda>k. content_prefix @ str_int k @ content_suffix
                            @ chosen_chapter svc (api_calls w) k) [1..num_chapters])\<rparr>))
       \<and> (\<exists>evs. trace w' = trace w @ evs
            \<and> (\<forall>k\<in>{1..num_chapters}. \<exists>d. Commit d \<in> set evs
                 \<and> get_book_info book_id d =
                     Inr (Some (b\<lparr>current_chapter := k,
                             status := (if k < num_chapters then status_writing
                                        else status_done),
                             full_text := full_text b @ concat (map
                               (\<lambda>j. content_prefix @ str_int j @ content_suffix
                                     @ chosen_chapter svc (api_calls w) j) [1..k])\<rparr>))))"
proof -
  let ?c = "api_calls w"
  let ?row = "\<lambda>k. b\<lparr>current_chapter := k,
                         status := (if k < num_chapters then status_writing else status_done),
                         full_text := full_text b @ chapters_text svc ?c [1..k]\<rparr>"
  have loop: "chapter_loop svc api_key model book_title num_chapters book_id
                [1..num_chapters] (full_text b) w = (r, w')"
    using run unfolding writing_process_found [OF found] .
  obtain evs where r: "r = Inr ()" and tr: "trace w' = trace w @ evs"
    using chapter_loop_trace_grows [OF found loop in_int64_upto [OF fits order_refl]]
    by blast
  have step: "\<exists>w1 evs1 evs2. trace w1 = trace w @ evs1 \<and> trace w' = trace w1 @ evs2
                \<and> evs1 \<noteq> [] \<and> last evs1 = Commit (database w1)
                \<and> get_book_info book_id (database w1) = Inr (Some (?row k))
                \<and> (k = num_chapters \<longrightarrow> w1 = w')"
    if k: "1 \<le> k" "k \<le> num_chapters" for k
  proof -
    have split: "[1..num_chapters] = [1..k] @ [k + 1..num_chapters]"
      using k by (rule upto_split2)
    have ne: "[1..k] \<noteq> []" and lst: "last [1..k] = k"
      using k(1) by (simp_all add: upto_rec2)
    have krs: "\<forall>j\<in>set [1..k]. in_int64 j"
      by (rule in_int64_upto [OF in_int64_between [OF fits k] order_refl])
    have krs': "\<forall>j\<in>set [k + 1..num_chapters]. in_int64 j"
      using k(1) by (intro in_int64_upto [OF fits]) simp
    have "4 * length [1..k] \<le> 4 * nat num_chapters"
      using k by simp
    then have ok1: "\<forall>n < 4 * length [1..k]. truthy (api_result svc (?c + n))"
      using ok by (meson less_le_trans)
    have loop': "chapter_loop svc api_key model book_title num_chapters book_id
                ([1..k] @ [k + 1..num_chapters]) (full_text b) w = (r, w')"
      using loop unfolding split .
    obtain w1 evs1 where
        rest: "chapter_loop svc api_key model book_title num_chapters book_id
                 [k + 1..num_chapters] (full_text b @ chapters_text svc ?c [1..k]) w1
                 = (r, w')"
      and row: "get_book_info book_id (database w1) = Inr (Some (?row k))"
      and tr1: "trace w1 = trace w @ evs1"
      and l1: "evs1 \<noteq> [] \<and> last evs1 = Commit (database w1)"
      using chapter_loop_appended_prefix [OF found ok1 loop' krs] ne lst by auto
    obtain evs2 where tr2: "trace w' = trace w1 @ evs2"
      using chapter_loop_trace_grows [OF row rest krs'] by blast
    have "k = num_chapters \<longrightarrow> w1 = w'"
      using rest by auto
    then show ?thesis
      using tr1 tr2 l1 row by blast
  qed
  have final: "get_book_info book_id (database w') = Inr (Some (?row num_chapters))"
    using step [OF pos order_refl] by auto
  have each: "\<exists>d. Commit d \<in> set evs \<and> get_book_info book_id d = Inr (Some (?row k))"
    if "k \<in> {1..num_chapters}" for k
  proof -
    have k1: "1 \<le> k" "k \<le> num_chapters" using that by simp_all
    obtain w1 evs1 evs2 where "trace w1 = trace w @ evs1 \<and> trace w' = trace w1 @ evs2
                \<and> evs1 \<noteq> [] \<and> last evs1 = Commit (database w1)
                \<and> get_book_info book_id (database w1) = Inr (Some (?row k))
                \<and> (k = num_chapters \<longrightarrow> w1 = w')"
      using step [OF k1] by blast
    then have a: "trace w1 = trace w @ evs1" "trace w' = trace w1 @ evs2"
      "evs1 \<noteq> []" "last evs1 = Commit (database w1)"
      "get_book_info book_id (database w1) = Inr (Some (?row k))"
      by simp_all
    have "evs = evs1 @ evs2" using a(1,2) tr by simp
    moreover have "Commit (database w1) \<in> set evs1"
      using a(3,4) last_in_set by metis
    ultimately show ?thesis using a(5) by auto
  qed
  show ?thesis
    using r final tr each unfolding chapters_text_chosen by auto
qed

text \<open>
  A new book of two chapters and a service that always answers: the text is heading 1,
  the answer, heading 2, the answer.
\<close>

theorem full_run_completes_witness:
  "get_book_info 1 (database (start_world dune_db)) =
     Inr (Some \<lparr>id_col = 1, title = ''Dune'', total_chapters = 2, current_chapter = 0,
           status = status_queued, full_text = []\<rparr>)
   \<and> fst (writing_process storyteller ''key'' ''deepseek-chat'' ''Dune'' 2 1
            (start_world dune_db)) = Inr ()
   \<and> get_book_info 1 (database (snd (writing_process storyteller ''key'' ''deepseek-chat''
                                        ''Dune'' 2 1 (start_world dune_db)))) =
       Inr (Some \<lparr>id_col = 1, title = ''Dune'', total_chapters = 2, current_chapter = 2,
             status = status_done,
             full_text = content_prefix @ ''1'' @ content_suffix @ ''Once''
                       @ content_prefix @ ''2'' @ content_suffix @ ''Once''\<rparr>)"
proof -
  have h2: "(1::int) \<le> 2" by simp
  have h3: "\<forall>n < 4 * nat 2.
              truthy (api_result storyteller (api_calls (start_world dune_db) + n))"
    by (simp add: api_result_def storyteller_def chat_completion_def)
  have up: "[1..2] = [1, 2::int]"
    by (simp add: upto_rec1)
  have ch: "chosen_chapter storyteller c k = ''Once''" for c k
    by (simp add: chosen_chapter_def api_result_def storyteller_def chat_completion_def)
  show ?thesis
    using full_run_completes [OF dune_world_row h2 in_int64_small(2) h3
            prod.collapse [symmetric]]
      dune_world_row
    by (simp add: up ch str_int_1 str_int_2)
qed

text \<open>
  C1, as the code has it. Let a run start with the chapter count of the book as
  \<open>num_chapters\<close>, on a book that is not completed or has the count as chapter number (a
  new book is queued). Then in the database before the run and in every database the run
  commits, a completed book has its chapter count as chapter number. The converse is not
  claimed: it fails, as the counterexample shows.
\<close>

theorem completed_only_at_last_chapter:
  assumes found: "get_book_info book_id (database w) = Inr (Some b)"
      and same: "total_chapters b = num_chapters"
      and init: "status b = status_done \<longrightarrow> current_chapter b = num_chapters"
      and run: "writing_process svc api_key model book_title num_chapters book_id w = (r, w')"
      and tr: "trace w' = trace w @ evs"
      and obs: "d = database w \<or> Commit d \<in> set evs"
      and row: "get_book_info book_id d = Inr (Some row)"
      and compl: "status row = status_done"
  shows "current_chapter row = total_chapters row"
proof -
  have loop: "chapter_loop svc api_key model book_title num_chapters book_id
                [1..num_chapters] (full_text b) w = (r, w')"
    using run unfolding writing_process_found [OF found] .
  have "\<forall>k\<in>set [1..num_chapters]. k \<le> num_chapters" by simp
  then have "\<exists>evs. trace w' = trace w @ evs
            \<and> (\<forall>e\<in>set evs. event_ok book_id num_chapters book_title num_chapters e)"
    using chapter_loop_events_ok [OF found refl same _ loop] by blast
  then have oks: "\<forall>e\<in>set evs. event_ok book_id num_chapters book_title num_chapters e"
    using tr by auto
  from obs show ?thesis
  proof
    assume "d = database w"
    then show ?thesis using found row compl init same by simp
  next
    assume "Commit d \<in> set evs"
    then have "event_ok book_id num_chapters book_title num_chapters (Commit d)"
      using oks by blast
    then show ?thesis using row compl by (auto simp: event_ok_def)
  qed
qed

text \<open>
  A new book of one chapter and a service that always answers: the last commit of the
  run shows the book completed, with chapter number 1 of 1.
\<close>

theorem completed_only_at_last_chapter_witness:
  "get_book_info 1 (database (start_world tale_db)) =
     Inr (Some \<lparr>id_col = 1, title = ''Tale'', total_chapters = 1, current_chapter = 0,
           status = status_queued, full_text = []\<rparr>)
   \<and> Commit (tale_row 1 status_done (new_content_for_db 1 ''Once''))
       \<in> set (trace (snd (writing_process storyteller ''key'' ''deepseek-chat'' ''Tale'' 1 1
                            (start_world tale_db))))
   \<and> get_book_info 1 (tale_row 1 status_done (new_content_for_db 1 ''Once'')) =
       Inr (Some \<lparr>id_col = 1, title = ''Tale'', total_chapters = 1, current_chapter = 1,
             status = status_done, full_text = new_content_for_db 1 ''Once''\<rparr>)
   \<and> current_chapter \<lparr>id_col = 1, title = ''Tale'', total_chapters = 1, current_chapter = 1,
             status = status_done, full_text = new_content_for_db 1 ''Once''\<rparr>
       = total_chapters \<lparr>id_col = 1, title = ''Tale'', total_chapters = 1, current_chapter = 1,
             status = status_done, full_text = new_content_for_db 1 ''Once''\<rparr>"
proof -
  let ?b = "\<lparr>id_col = 1, title = ''Tale'', total_chapters = 1, current_chapter = 0,
             status = status_queued, full_text = []\<rparr>"
  let ?d = "tale_row 1 status_done (new_content_for_db 1 ''Once'')"
  let ?evs = "[Commit (tale_row 1 (status_generating 1) []),
          tale_prompt, tale_prompt, tale_prompt, tale_choice, Commit ?d]"
  have h1: "get_book_info 1 (database (start_world tale_db)) = Inr (Some ?b)"
    by (simp add: start_world_def tale_db_row tale_row_found)
  have h2: "total_chapters ?b = 1" by simp
  have h3: "status ?b = status_done \<longrightarrow> current_chapter ?b = 1"
    by (simp add: queued_not_done)
  have h5: "trace (snd (writing_process storyteller ''key'' ''deepseek-chat'' ''Tale'' 1 1
                            (start_world tale_db))) = trace (start_world tale_db) @ ?evs"
    unfolding tale_told_world by (simp add: start_world_def)
  have h6: "?d = database (start_world tale_db) \<or> Commit ?d \<in> set ?evs" by simp
  have h7: "get_book_info 1 ?d =
       Inr (Some \<lparr>id_col = 1, title = ''Tale'', total_chapters = 1, current_chapter = 1,
             status = status_done, full_text = new_content_for_db 1 ''Once''\<rparr>)"
    by (rule tale_row_found)
  have h8: "status \<lparr>id_col = 1, title = ''Tale'', total_chapters = 1, current_chapter = 1,
             status = status_done, full_text = new_content_for_db 1 ''Once''\<rparr> = status_done"
    by simp
  show ?thesis
    using completed_only_at_last_chapter [OF h1 h2 h3 prod.collapse [symmetric] h5 h6 h7 h8]
      h1 h5 h7
    by (simp add: start_world_def)
qed

text \<open>
  C1, as the claim has it, fails: in the same run the first commit shows the book with
  chapter number 1 of 1 and the generating status, which is not the completed one.
\<close>

theorem position_reaches_target_before_completion_counterexample:
  "Commit (tale_row 1 (status_generating 1) [])
       \<in> set (trace (snd (writing_process storyteller ''key'' ''deepseek-chat'' ''Tale'' 1 1
                            (start_world tale_db))))
   \<and> get_book_info 1 (tale_row 1 (status_generating 1) []) =
       Inr (Some \<lparr>id_col = 1, title = ''Tale'', total_chapters = 1, current_chapter = 1,
             status = status_generating 1, full_text = []\<rparr>)
   \<and> status_generating 1 \<noteq> status_done"
  by (simp add: tale_told_world tale_row_found generating_not_done)

text \<open>
  C8. When a commit of a run shows the book with one of the two error statuses, no
  event follows it in the history (no commit and no prompt), the database at the end of
  the run is the committed one, the run has returned without an exception, and the commit
  has left chapter number and text as the event before it showed them: the update that
  records the failure appends nothing.
\<close>

theorem failure_freezes_project:
  assumes found: "get_book_info book_id (database w) = Inr (Some b)"
      and run: "writing_process svc api_key model book_title num_chapters book_id w = (r, w')"
      and tr: "trace w' = trace w @ pre @ Commit d # post"
      and row: "get_book_info book_id d = Inr (Some row)"
      and failed: "status row = status_draft_failed \<or> status row = status_select_failed"
  shows "post = [] \<and> database w' = d \<and> r = Inr ()
       \<and> (\<exists>row0. get_book_info book_id (if pre = [] then database w else event_db (last pre))
                     = Inr (Some row0)
              \<and> full_text row = full_text row0
              \<and> current_chapter row = current_chapter row0)"
proof -
  have loop: "chapter_loop svc api_key model book_title num_chapters book_id
                [1..num_chapters] (full_text b) w = (r, w')"
    using run unfolding writing_process_found [OF found] .
  obtain evs where t: "trace w' = trace w @ evs"
    and s: "stops_at_failure book_id (database w) evs"
    and l: "database w' = last_db (database w) evs"
    and n: "\<forall>d. Commit d \<in> set evs \<longrightarrow> failed_in book_id d \<longrightarrow> r = Inr ()"
    using chapter_loop_stops [OF found loop] by blast
  have evs: "evs = pre @ Commit d # post"
    using t tr by simp
  have f: "failed_in book_id d"
    using row failed by (simp add: failed_in_def)
  have p: "post = []" and sp: "same_progress book_id (last_db (database w) pre) d"
    using stops_at_failure_split [OF s [unfolded evs] f] by simp_all
  have "database w' = d"
    using l evs p by (simp add: last_db_def)
  moreover have "r = Inr ()"
    using n f evs by simp
  moreover have "\<exists>row0. get_book_info book_id
                     (if pre = [] then database w else event_db (last pre)) = Inr (Some row0)
              \<and> full_text row = full_text row0
              \<and> current_chapter row = current_chapter row0"
    using sp row
    by (auto simp: same_progress_def last_db_def split: option.splits sum.splits)
  ultimately show ?thesis using p by blast
qed

text \<open>
  A new book of one chapter and a service that never answers: the commit of the failed
  drafts is the last event of the run.
\<close>

theorem failure_freezes_project_witness:
  "get_book_info 1 (database (start_world tale_db)) =
     Inr (Some \<lparr>id_col = 1, title = ''Tale'', total_chapters = 1, current_chapter = 0,
           status = status_queued, full_text = []\<rparr>)
   \<and> trace (snd (writing_process silent ''key'' ''deepseek-chat'' ''Tale'' 1 1
                    (start_world tale_db))) =
       trace (start_world tale_db)
         @ [Commit (tale_row 1 (status_generating 1) []), tale_prompt, tale_prompt, tale_prompt]
         @ Commit (tale_row 1 status_draft_failed []) # []
   \<and> database (snd (writing_process silent ''key'' ''deepseek-chat'' ''Tale'' 1 1
                       (start_world tale_db))) = tale_row 1 status_draft_failed []
   \<and> fst (writing_process silent ''key'' ''deepseek-chat'' ''Tale'' 1 1
             (start_world tale_db)) = Inr ()
   \<and> (\<exists>row0. get_book_info 1 (event_db tale_prompt) = Inr (Some row0)
          \<and> full_text row0 = [] \<and> current_chapter row0 = 1)"
proof -
  let ?b = "\<lparr>id_col = 1, title = ''Tale'', total_chapters = 1, current_chapter = 0,
             status = status_queued, full_text = []\<rparr>"
  let ?pre = "[Commit (tale_row 1 (status_generating 1) []),
               tale_prompt, tale_prompt, tale_prompt]"
  have h1: "get_book_info 1 (database (start_world tale_db)) = Inr (Some ?b)"
    by (simp add: start_world_def tale_db_row tale_row_found)
  have h3: "trace (snd (writing_process silent ''key'' ''deepseek-chat'' ''Tale'' 1 1
                    (start_world tale_db))) =
       trace (start_world tale_db) @ ?pre @ Commit (tale_row 1 status_draft_failed []) # []"
    unfolding tale_untold_world by (simp add: start_world_def)
  have h4: "get_book_info 1 (tale_row 1 status_draft_failed []) =
     Inr (Some \<lparr>id_col = 1, title = ''Tale'', total_chapters = 1, current_chapter = 1,
           status = status_draft_failed, full_text = []\<rparr>)"
    by (rule tale_row_found)
  have h5: "status \<lparr>id_col = 1, title = ''Tale'', total_chapters = 1, current_chapter = 1,
           status = status_draft_failed, full_text = []\<rparr> = status_draft_failed
         \<or> status \<lparr>id_col = 1, title = ''Tale'', total_chapters = 1, current_chapter = 1,
           status = status_draft_failed, full_text = []\<rparr> = status_select_failed"
    by simp
  show ?thesis
    using failure_freezes_project [OF h1 prod.collapse [symmetric] h3 h4 h5] h1 h3
    by (auto simp add: start_world_def)
qed

text \<open>
  C10. Every prompt that a run builds is built from a value of the local variable
  \<open>full_text\<close> that is the text of the book's row in the database at that moment, and the
  prompt is the draft prompt or the choice prompt of some chapter, in which the text of
  the row stands as the context: at the end of the draft prompt, and between the heading
  of the context and the first draft in the choice prompt.
\<close>

theorem prompt_context_is_stored_text:
  assumes found: "get_book_info book_id (database w) = Inr (Some b)"
      and run: "writing_process svc api_key model book_title num_chapters book_id w = (r, w')"
      and tr: "trace w' = trace w @ evs"
      and built: "PromptBuilt ft msgs d \<in> set evs"
  shows "\<exists>row. get_book_info book_id d = Inr (Some row) \<and> full_text row = ft
           \<and> (\<exists>k. msgs = [\<lparr>role = ''user'',
                              content = draft_prompt_1 @ str_int k @ draft_prompt_2
                                @ book_title @ draft_prompt_3 @ full_text row\<rparr>]
                  \<or> (\<exists>d1 d2 d3.
                        msgs = [\<lparr>role = ''user'',
                                 content = select_prompt_1 @ book_title @ select_prompt_2
                                   @ str_int k @ select_prompt_3 @ full_text row
                                   @ select_prompt_4 @ d1 @ select_prompt_5 @ d2
                                   @ select_prompt_6 @ d3 @ select_prompt_7\<rparr>]))"
proof -
  have loop: "chapter_loop svc api_key model book_title num_chapters book_id
                [1..num_chapters] (full_text b) w = (r, w')"
    using run unfolding writing_process_found [OF found] .
  have "\<forall>k\<in>set [1..num_chapters]. k \<le> num_chapters" by simp
  then have "\<exists>evs. trace w' = trace w @ evs
            \<and> (\<forall>e\<in>set evs. event_ok book_id num_chapters book_title (total_chapters b) e)"
    using chapter_loop_events_ok [OF found refl refl _ loop] by blast
  then have "\<forall>e\<in>set evs. event_ok book_id num_chapters book_title (total_chapters b) e"
    using tr by auto
  then have "event_ok book_id num_chapters book_title (total_chapters b)
               (PromptBuilt ft msgs d)"
    using built by blast
  then obtain row k where row: "get_book_info book_id d = Inr (Some row)"
    and ft: "full_text row = ft"
    and msgs: "msgs = draft_request k book_title ft
               \<or> (\<exists>ds. msgs = select_request k book_title ft ds)"
    by (auto simp add: event_ok_def)
  from msgs have "msgs = [\<lparr>role = ''user'',
                              content = draft_prompt_1 @ str_int k @ draft_prompt_2
                                @ book_title @ draft_prompt_3 @ full_text row\<rparr>]
                  \<or> (\<exists>d1 d2 d3.
                        msgs = [\<lparr>role = ''user'',
                                 content = select_prompt_1 @ book_title @ select_prompt_2
                                   @ str_int k @ select_prompt_3 @ full_text row
                                   @ select_prompt_4 @ d1 @ select_prompt_5 @ d2
                                   @ select_prompt_6 @ d3 @ select_prompt_7\<rparr>])"
  proof
    assume "msgs = draft_request k book_title ft"
    then show ?thesis
      by (simp add: draft_request_def prompt_draft_def ft)
  next
    assume "\<exists>ds. msgs = select_request k book_title ft ds"
    then obtain ds where "msgs = select_request k book_title ft ds" ..
    then have "msgs = [\<lparr>role = ''user'',
                                 content = select_prompt_1 @ book_title @ select_prompt_2
                                   @ str_int k @ select_prompt_3 @ full_text row
                                   @ select_prompt_4 @ ds ! 0 @ select_prompt_5 @ ds ! 1
                                   @ select_prompt_6 @ ds ! 2 @ select_prompt_7\<rparr>]"
      by (simp add: select_request_def prompt_select_def ft)
    then show ?thesis by blast
  qed
  then show ?thesis
    using row ft by blast
qed

text \<open>
  A new book of two chapters and a service that always answers: the draft prompt of
  chapter 2 is in the history, built from the text of chapter 1, which is not empty and
  is the text that the row holds at that moment.
\<close>

theorem prompt_context_is_stored_text_witness:
  "get_book_info 1 (database (start_world dune_db)) =
     Inr (Some \<lparr>id_col = 1, title = ''Dune'', total_chapters = 2, current_chapter = 0,
           status = status_queued, full_text = []\<rparr>)
   \<and> PromptBuilt (new_content_for_db 1 ''Once'')
         [\<lparr>role = ''user'',
           content = prompt_draft 2 ''Dune'' (new_content_for_db 1 ''Once'')\<rparr>]
         (dune_state 2 (status_generating 2) (new_content_for_db 1 ''Once''))
       \<in> set (trace (snd (writing_process storyteller ''key'' ''deepseek-chat'' ''Dune'' 2 1
                            (start_world dune_db))))
   \<and> new_content_for_db 1 ''Once'' \<noteq> []
   \<and> get_book_info 1 (dune_state 2 (status_generating 2) (new_content_for_db 1 ''Once''))
       = Inr (Some \<lparr>id_col = 1, title = ''Dune'', total_chapters = 2, current_chapter = 2,
                    status = status_generating 2,
                    full_text = new_content_for_db 1 ''Once''\<rparr>)
   \<and> (\<exists>row. get_book_info 1
                 (dune_state 2 (status_generating 2) (new_content_for_db 1 ''Once''))
                 = Inr (Some row)
          \<and> full_text row = new_content_for_db 1 ''Once''
          \<and> (\<exists>k. [\<lparr>role = ''user'',
                      content = prompt_draft 2 ''Dune'' (new_content_for_db 1 ''Once'')\<rparr>]
                   = [\<lparr>role = ''user'',
                       content = draft_prompt_1 @ str_int k @ draft_prompt_2
                         @ ''Dune'' @ draft_prompt_3 @ full_text row\<rparr>]
                 \<or> (\<exists>d1 d2 d3.
                       [\<lparr>role = ''user'',
                         content = prompt_draft 2 ''Dune'' (new_content_for_db 1 ''Once'')\<rparr>]
                       = [\<lparr>role = ''user'',
                           content = select_prompt_1 @ ''Dune'' @ select_prompt_2
                             @ str_int k @ select_prompt_3 @ full_text row
                             @ select_prompt_4 @ d1 @ select_prompt_5 @ d2
                             @ select_prompt_6 @ d3 @ select_prompt_7\<rparr>])))"
proof -
  let ?t = "new_content_for_db 1 ''Once''"
  let ?run = "writing_process storyteller ''key'' ''deepseek-chat'' ''Dune'' 2 1
                (start_world dune_db)"
  have h3: "trace (snd ?run) = trace (start_world dune_db) @ trace (snd ?run)"
    by (simp add: start_world_def)
  have h4: "PromptBuilt ?t [\<lparr>role = ''user'', content = prompt_draft 2 ''Dune'' ?t\<rparr>]
              (dune_state 2 (status_generating 2) ?t) \<in> set (trace (snd ?run))"
    unfolding dune_told_trace by (simp add: dune_prompt_def)
  show ?thesis
    using prompt_context_is_stored_text [OF dune_world_row prod.collapse [symmetric] h3 h4]
      dune_world_row h4 new_content_not_empty [of 1 "''Once''"]
      dune_state_found [of 2 "status_generating 2" ?t]
    by simp
qed

end
